theory Spec2Isabelle
  imports Main
begin

section \<open>The environment of the wrapper\<close>

text \<open>
  The wrapper (\<^verbatim>\<open>gemini_api.py\<close>) talks to three things outside Python: the
  \<^verbatim>\<open>gemini\<close> executable, started with \<^verbatim>\<open>subprocess.run\<close>; the wall clock, read by
  SQLite (\<^verbatim>\<open>datetime('now', ...)\<close>, \<^verbatim>\<open>CURRENT_TIMESTAMP\<close>) and by Python
  (\<^verbatim>\<open>datetime.now()\<close>); and the library functions \<^verbatim>\<open>hashlib.md5\<close> and \<^verbatim>\<open>str\<close>.
  They are parameters of the model.

  What one \<^verbatim>\<open>subprocess.run(cmd, capture_output=True, text=True, timeout=300)\<close> does:
  the child exits with a return code, its standard output and its standard error; or
  the timeout expires; or the call raises something else (the executable is missing,
  for instance).
\<close>

datatype proc_outcome =
    Exited int string string
  | TimeoutExpired
  | OtherException string

text \<open>
  \<open>gemini e k argv\<close> is the outcome of the \<open>k\<close>-th child process (counted from 0), started
  with the argument vector \<open>argv\<close>. \<open>utc_micros e k\<close> is the wall clock at its \<open>k\<close>-th
  reading, in microseconds since the epoch, UTC. SQLite's \<^verbatim>\<open>'now'\<close> and
  \<^verbatim>\<open>CURRENT_TIMESTAMP\<close> are UTC and are stored and compared as text with whole seconds;
  Python's \<^verbatim>\<open>datetime.now()\<close> is a naive datetime in local time, \<open>utc_offset e\<close> seconds
  ahead of UTC. \<open>md5_hex\<close> is \<^verbatim>\<open>hashlib.md5(s.encode()).hexdigest()\<close> and \<open>str_flags\<close> is
  Python's \<^verbatim>\<open>str\<close> of the \<^verbatim>\<open>extra_flags\<close> argument (\<^verbatim>\<open>None\<close> or a list).
\<close>

record env =
  gemini :: "nat \<Rightarrow> string list \<Rightarrow> proc_outcome"
  utc_micros :: "nat \<Rightarrow> int"
  utc_offset :: int
  md5_hex :: "string \<Rightarrow> string"
  str_flags :: "string list option \<Rightarrow> string"

section \<open>Data\<close>

text \<open>
  A row of the SQLite table \<^verbatim>\<open>requests\<close>. The timestamp is in seconds since the epoch
  (the text \<^verbatim>\<open>YYYY-MM-DD HH:MM:SS\<close> orders the same way). The autoincrement \<^verbatim>\<open>id\<close> is
  never read; the rows are kept in insertion order.
\<close>

record row =
  timestamp :: int
  prompt_hash :: string
  response_length :: nat

text \<open>The dictionary returned by \<^verbatim>\<open>get_usage_stats\<close>.\<close>

record usage =
  requests_last_hour :: nat
  requests_today :: nat
  remaining_this_hour :: int
  max_per_hour :: int

text \<open>
  The result dictionaries built by \<^verbatim>\<open>_execute_gemini_command\<close> and \<^verbatim>\<open>prompt\<close>. Every one
  of them has the keys \<^verbatim>\<open>success\<close> and \<^verbatim>\<open>error\<close>; for the other keys \<open>None\<close> says that
  the key is absent. \<open>error\<close> and the inner option of \<open>output_field\<close> (the key
  \<^verbatim>\<open>output\<close>) are Python's \<^verbatim>\<open>Optional[str]\<close>.
\<close>

record result =
  success :: bool
  output_field :: "string option option"
  error :: "string option"
  command :: "string option"
  wait_time :: "int option"
  usage :: "usage option"
  attempt :: "nat option"
  from_cache :: "bool option"

text \<open>The constructor arguments of \<^verbatim>\<open>GeminiAPI\<close>.\<close>

record config =
  auto_approve :: bool
  checkpointing :: bool
  max_retries :: int
  max_requests :: int

text \<open>
  The state the wrapper changes. \<open>requests\<close> is the table in the database file. Python
  dictionaries are objects: \<open>heap\<close> maps a reference to the dictionary it denotes,
  \<open>next_ref\<close> is the next unused reference, and \<open>response_cache\<close> maps a cache key to the
  reference stored under it. \<open>trace\<close> lists, in the order they happened, the calls of
  \<^verbatim>\<open>time.sleep\<close> (with the seconds) and of \<^verbatim>\<open>subprocess.run\<close> (with the argument
  vector) so far, and \<open>ticks\<close> counts the clock readings so far.
\<close>

datatype effect = Sleep nat | Run "string list"

record world =
  requests :: "row list"
  heap :: "nat \<Rightarrow> result"
  next_ref :: nat
  response_cache :: "string \<rightharpoonup> nat"
  trace :: "effect list"
  ticks :: nat

text \<open>The argument vectors run so far.\<close>

fun runs_of :: "effect list \<Rightarrow> string list list" where
  "runs_of [] = []"
| "runs_of (Run argv # xs) = argv # runs_of xs"
| "runs_of (Sleep secs # xs) = runs_of xs"

definition commands :: "world \<Rightarrow> string list list" where
  "commands w = runs_of (trace w)"

section \<open>The clock\<close>

text \<open>The clock in whole seconds at its \<open>k\<close>-th reading: what SQLite's \<^verbatim>\<open>'now'\<close> is then.\<close>

definition utc_seconds :: "env \<Rightarrow> nat \<Rightarrow> int" where
  "utc_seconds e k = utc_micros e k div 1000000"

definition sql_now :: "env \<Rightarrow> world \<Rightarrow> int \<times> world" where
  "sql_now e w = (utc_seconds e (ticks w), w\<lparr>ticks := Suc (ticks w)\<rparr>)"

definition datetime_now :: "env \<Rightarrow> world \<Rightarrow> int \<times> world" where
  "datetime_now e w =
     (utc_micros e (ticks w) + utc_offset e * 1000000, w\<lparr>ticks := Suc (ticks w)\<rparr>)"

text \<open>
  \<^verbatim>\<open>int(td.total_seconds())\<close> for a timedelta of \<open>us\<close> microseconds: Python's \<^verbatim>\<open>int\<close>
  truncates towards zero. (\<^verbatim>\<open>total_seconds\<close> is a float; the rounding of the division
  cannot reach the next integer for differences below some 285 years.)
\<close>

definition int_total_seconds :: "int \<Rightarrow> int" where
  "int_total_seconds us = (if 0 \<le> us then us div 1000000 else - ((- us) div 1000000))"

section \<open>GeminiRateLimiter\<close>

text \<open>The three SQL statements, on a table and a value of \<^verbatim>\<open>'now'\<close>.\<close>

definition delete_old :: "int \<Rightarrow> row list \<Rightarrow> row list" where
  "delete_old now rs = filter (\<lambda>r. \<not> timestamp r < now - 3600) rs"

definition count_recent :: "int \<Rightarrow> row list \<Rightarrow> nat" where
  "count_recent now rs = length (filter (\<lambda>r. timestamp r > now - 3600) rs)"

definition min_recent :: "int \<Rightarrow> row list \<Rightarrow> int option" where
  "min_recent now rs =
     (case filter (\<lambda>t. t > now - 3600) (map timestamp rs) of
        [] \<Rightarrow> None
      | t # ts \<Rightarrow> Some (fold min ts t))"

definition start_of_day :: "int \<Rightarrow> int" where
  "start_of_day now = now - now mod 86400"

text \<open>
  \<^verbatim>\<open>can_make_request\<close>. Each SQL statement evaluates \<^verbatim>\<open>'now'\<close> when it runs. The
  \<^verbatim>\<open>DELETE\<close> opens a transaction that is never committed: the \<^verbatim>\<open>COUNT\<close> on the same
  connection sees the pruned table, \<^verbatim>\<open>conn.close()\<close> then drops the deletion, and the
  second connection (the \<^verbatim>\<open>MIN\<close>) reads the table as it was. The result is the pair the
  method returns: whether the request may proceed, and the seconds to wait if not.
\<close>

definition can_make_request :: "int \<Rightarrow> env \<Rightarrow> world \<Rightarrow> (bool \<times> int option) \<times> world" where
  "can_make_request max_reqs e w =
     (let (t_del, w1) = sql_now e w;
          pruned = delete_old t_del (requests w1);
          (t_cnt, w2) = sql_now e w1;
          count = count_recent t_cnt pruned
      in if int count < max_reqs then ((True, None), w2)
         else
           (let (t_min, w3) = sql_now e w2
            in case min_recent t_min (requests w3) of
                 Some oldest_time \<Rightarrow>
                   (let wait_until = (oldest_time + 3600) * 1000000;
                        (now, w4) = datetime_now e w3;
                        wait_seconds = int_total_seconds (wait_until - now)
                    in ((False, Some (max 1 wait_seconds)), w4))
               | None \<Rightarrow> ((False, Some 60), w3)))"

text \<open>\<^verbatim>\<open>record_request\<close>: one committed \<^verbatim>\<open>INSERT\<close>, stamped by \<^verbatim>\<open>CURRENT_TIMESTAMP\<close>.\<close>

definition record_request :: "env \<Rightarrow> string \<Rightarrow> nat \<Rightarrow> world \<Rightarrow> world" where
  "record_request e prompt_text len w =
     (let (now, w1) = sql_now e w
      in w1\<lparr>requests := requests w1 @
               [\<lparr>timestamp = now, prompt_hash = md5_hex e prompt_text, response_length = len\<rparr>]\<rparr>)"

definition get_usage_stats :: "int \<Rightarrow> env \<Rightarrow> world \<Rightarrow> usage \<times> world" where
  "get_usage_stats max_reqs e w =
     (let (t_hour, w1) = sql_now e w;
          hour_count = count_recent t_hour (requests w1);
          (t_day, w2) = sql_now e w1;
          today_count = length (filter (\<lambda>r. timestamp r > start_of_day t_day) (requests w2))
      in (\<lparr>requests_last_hour = hour_count,
           requests_today = today_count,
           remaining_this_hour = max_reqs - int hour_count,
           max_per_hour = max_reqs\<rparr>, w2))"

section \<open>GeminiAPI\<close>

text \<open>\<^verbatim>\<open>" ".join(cmd)\<close>\<close>

fun join_space :: "string list \<Rightarrow> string" where
  "join_space [] = []"
| "join_space [x] = x"
| "join_space (x # y # zs) = x @ '' '' @ join_space (y # zs)"

text \<open>
  The argument vector of \<^verbatim>\<open>_execute_gemini_command\<close>. \<^verbatim>\<open>if extra_flags:\<close> skips both
  \<^verbatim>\<open>None\<close> and the empty list.
\<close>

definition build_cmd :: "config \<Rightarrow> string \<Rightarrow> string list option \<Rightarrow> string list" where
  "build_cmd c prompt_text extra_flags =
     [''gemini'']
     @ (if auto_approve c then [''--yolo''] else [])
     @ (if checkpointing c then [''--checkpointing''] else [])
     @ (case extra_flags of Some fs \<Rightarrow> fs | None \<Rightarrow> [])
     @ [''-p'', prompt_text]"

text \<open>The dictionary \<^verbatim>\<open>_execute_gemini_command\<close> returns, by what the child process did.\<close>

definition execute_result :: "string list \<Rightarrow> proc_outcome \<Rightarrow> result" where
  "execute_result cmd oc =
     (case oc of
        Exited returncode stdout stderr \<Rightarrow>
          \<lparr>success = (returncode = 0),
           output_field = Some (Some stdout),
           error = (if returncode \<noteq> 0 then Some stderr else None),
           command = Some (join_space cmd),
           wait_time = None, usage = None, attempt = None, from_cache = None\<rparr>
      | TimeoutExpired \<Rightarrow>
          \<lparr>success = False,
           output_field = Some None,
           error = Some ''Command timed out after 5 minutes'',
           command = Some (join_space cmd),
           wait_time = None, usage = None, attempt = None, from_cache = None\<rparr>
      | OtherException msg \<Rightarrow>
          \<lparr>success = False,
           output_field = Some None,
           error = Some msg,
           command = Some (join_space cmd),
           wait_time = None, usage = None, attempt = None, from_cache = None\<rparr>)"

text \<open>A dictionary literal makes a new object; an assignment to a key changes it in place.\<close>

definition new_dict :: "result \<Rightarrow> world \<Rightarrow> nat \<times> world" where
  "new_dict d w = (next_ref w, w\<lparr>heap := (heap w)(next_ref w := d), next_ref := Suc (next_ref w)\<rparr>)"

definition dict_update :: "nat \<Rightarrow> (result \<Rightarrow> result) \<Rightarrow> world \<Rightarrow> world" where
  "dict_update r f w = w\<lparr>heap := (heap w)(r := f (heap w r))\<rparr>"

definition execute_gemini_command ::
  "config \<Rightarrow> env \<Rightarrow> string \<Rightarrow> string list option \<Rightarrow> world \<Rightarrow> nat \<times> world" where
  "execute_gemini_command c e prompt_text extra_flags w =
     (let cmd = build_cmd c prompt_text extra_flags;
          oc = gemini e (length (commands w)) cmd;
          w1 = w\<lparr>trace := trace w @ [Run cmd]\<rparr>
      in new_dict (execute_result cmd oc) w1)"

text \<open>Python's \<^verbatim>\<open>str\<close> of an int and of an \<^verbatim>\<open>Optional\<close>, as the f-strings use it.\<close>

fun str_nat :: "nat \<Rightarrow> string" where
  "str_nat n =
     (if n < 10 then [''0123456789'' ! n]
      else str_nat (n div 10) @ [''0123456789'' ! (n mod 10)])"

declare str_nat.simps [simp del]

definition str_int :: "int \<Rightarrow> string" where
  "str_int i = (if i < 0 then CHR ''-'' # str_nat (nat (- i)) else str_nat (nat i))"

definition str_opt_int :: "int option \<Rightarrow> string" where
  "str_opt_int x = (case x of Some i \<Rightarrow> str_int i | None \<Rightarrow> ''None'')"

definition str_opt_str :: "string option \<Rightarrow> string" where
  "str_opt_str x = (case x of Some s \<Rightarrow> s | None \<Rightarrow> ''None'')"

text \<open>
  \<^verbatim>\<open>len(result.get("output", ""))\<close>. It is evaluated only when \<^verbatim>\<open>result["success"]\<close>
  holds, and then the key holds the child's standard output (lemma
  \<open>execute_result_success\<close>); on \<^verbatim>\<open>None\<close> Python would raise.
\<close>

definition len_output :: "result \<Rightarrow> nat" where
  "len_output d = (case output_field d of Some (Some s) \<Rightarrow> length s | _ \<Rightarrow> 0)"

definition cache_key :: "env \<Rightarrow> string \<Rightarrow> string list option \<Rightarrow> string" where
  "cache_key e text extra_flags = md5_hex e (text @ str_flags e extra_flags)"

definition sleep :: "nat \<Rightarrow> world \<Rightarrow> world" where
  "sleep secs w = w\<lparr>trace := trace w @ [Sleep secs]\<rparr>"

text \<open>
  The retry loop of \<^verbatim>\<open>prompt\<close>, \<^verbatim>\<open>for attempt in range(self.max_retries)\<close>: the first
  number is that of the iterations still to run, the second is \<^verbatim>\<open>attempt\<close>. The loop
  either returns the reference of a result from inside, or runs out and leaves
  \<^verbatim>\<open>last_error\<close>.
\<close>

datatype loop_exit = Returned nat | Exhausted "string option"

fun retry_loop ::
  "config \<Rightarrow> env \<Rightarrow> string \<Rightarrow> string list option \<Rightarrow> bool \<Rightarrow> nat \<Rightarrow> nat \<Rightarrow> string option \<Rightarrow> world
     \<Rightarrow> loop_exit \<times> world" where
  "retry_loop c e text extra_flags use_cache 0 attempt_no last_error w = (Exhausted last_error, w)"
| "retry_loop c e text extra_flags use_cache (Suc n) attempt_no last_error w =
     (let w1 = (if attempt_no > 0 then sleep (2 ^ attempt_no) w else w);
          (r, w2) = execute_gemini_command c e text extra_flags w1
      in if success (heap w2 r) then
           (let w3 = record_request e text (len_output (heap w2 r)) w2;
                w4 = (if use_cache
                      then w3\<lparr>response_cache := (response_cache w3)(cache_key e text extra_flags \<mapsto> r)\<rparr>
                      else w3);
                (u, w5) = get_usage_stats (max_requests c) e w4;
                w6 = dict_update r (\<lambda>d. d\<lparr>usage := Some u\<rparr>) w5;
                w7 = dict_update r (\<lambda>d. d\<lparr>attempt := Some (attempt_no + 1)\<rparr>) w6
            in (Returned r, w7))
         else retry_loop c e text extra_flags use_cache n (Suc attempt_no) (error (heap w2 r)) w2)"

text \<open>
  The two failure dictionaries \<^verbatim>\<open>prompt\<close> builds: for a request the rate limiter denied
  (\<open>wait\<close> is the \<^verbatim>\<open>wait_time\<close> the limiter gave), and after the loop ran out.
\<close>

definition rate_limited :: "int option \<Rightarrow> usage \<Rightarrow> result" where
  "rate_limited wait u =
     \<lparr>success = False,
      output_field = None,
      error = Some (''Rate limit reached. Please wait '' @ str_opt_int wait @ '' seconds.''),
      command = None,
      wait_time = wait,
      usage = Some u,
      attempt = None, from_cache = None\<rparr>"

definition retries_failed :: "int \<Rightarrow> string option \<Rightarrow> usage \<Rightarrow> result" where
  "retries_failed retries last_error u =
     \<lparr>success = False,
      output_field = None,
      error = Some (''Failed after '' @ str_int retries @ '' attempts. Last error: ''
                    @ str_opt_str last_error),
      command = None,
      wait_time = None,
      usage = Some u,
      attempt = None, from_cache = None\<rparr>"

text \<open>
  \<^verbatim>\<open>prompt\<close>. The value is the reference of the dictionary it returns: on a cache hit
  that is the object stored in the cache, changed in place.
\<close>

definition prompt ::
  "config \<Rightarrow> env \<Rightarrow> string \<Rightarrow> string list option \<Rightarrow> bool \<Rightarrow> world \<Rightarrow> nat \<times> world" where
  "prompt c e text extra_flags use_cache w =
     (let key = cache_key e text extra_flags
      in case (if use_cache then response_cache w key else None) of
           Some cached \<Rightarrow> (cached, dict_update cached (\<lambda>d. d\<lparr>from_cache := Some True\<rparr>) w)
         | None \<Rightarrow>
             (let ((can_proceed, wait), w1) = can_make_request (max_requests c) e w
              in if \<not> can_proceed then
                   (let (u, w2) = get_usage_stats (max_requests c) e w1
                    in new_dict (rate_limited wait u) w2)
                 else
                   (case retry_loop c e text extra_flags use_cache (nat (max_retries c)) 0 None w1 of
                      (Returned r, w2) \<Rightarrow> (r, w2)
                    | (Exhausted last_error, w2) \<Rightarrow>
                        (let (u, w3) = get_usage_stats (max_requests c) e w2
                         in new_dict (retries_failed (max_retries c) last_error u) w3))))"

section \<open>The server: asynchronous jobs\<close>

text \<open>
  An entry of \<^verbatim>\<open>job_results\<close> (\<^verbatim>\<open>gemini_server.py\<close>): the route writes a dictionary with
  \<^verbatim>\<open>status\<close> and \<^verbatim>\<open>started_at\<close>, the callback replaces it by one with \<^verbatim>\<open>status\<close>,
  \<^verbatim>\<open>result\<close> and \<^verbatim>\<open>completed_at\<close>. The times are \<^verbatim>\<open>datetime.now()\<close>, in microseconds.
\<close>

record job =
  status :: string
  job_result :: "nat option"
  started_at :: "int option"
  completed_at :: "int option"

text \<open>
  An entry of \<^verbatim>\<open>request_queue\<close>. A callback is a closure; the only one the server makes
  is the \<^verbatim>\<open>callback\<close> of the route \<^verbatim>\<open>/prompt/async\<close>, which is determined by the
  \<^verbatim>\<open>job_id\<close> it closes over (\<open>None\<close>: no callback).
\<close>

record queued =
  q_prompt :: string
  q_extra_flags :: "string list option"
  q_callback :: "string option"
  q_timestamp :: int

record server =
  api :: world
  request_queue :: "queued list"
  job_results :: "string \<rightharpoonup> job"

text \<open>\<^verbatim>\<open>GeminiAPI.prompt_async\<close>; the number is the \<^verbatim>\<open>queue_size\<close> it reports.\<close>

definition api_prompt_async ::
  "env \<Rightarrow> string \<Rightarrow> string option \<Rightarrow> string list option \<Rightarrow> server \<Rightarrow> nat \<times> server" where
  "api_prompt_async e text cb extra_flags s =
     (let (now, w1) = datetime_now e (api s);
          q = request_queue s @
                [\<lparr>q_prompt = text, q_extra_flags = extra_flags, q_callback = cb, q_timestamp = now\<rparr>]
      in (length q, s\<lparr>api := w1, request_queue := q\<rparr>))"

text \<open>The closure \<^verbatim>\<open>callback(result)\<close> made by the route for \<^verbatim>\<open>job_id\<close>.\<close>

definition callback :: "env \<Rightarrow> string \<Rightarrow> nat \<Rightarrow> server \<Rightarrow> server" where
  "callback e job_id r s =
     (let (now, w1) = datetime_now e (api s)
      in s\<lparr>api := w1,
           job_results := (job_results s)(job_id \<mapsto>
             \<lparr>status = ''completed'', job_result = Some r, started_at = None, completed_at = Some now\<rparr>)\<rparr>)"

text \<open>
  The route \<^verbatim>\<open>POST /prompt/async\<close> on a body with a prompt: \<open>job_id\<close> is the value of
  \<^verbatim>\<open>str(uuid.uuid4())\<close>. (The response it sends says \<^verbatim>\<open>"status": "queued"\<close>; the registry
  never holds that value.)
\<close>

definition prompt_async :: "env \<Rightarrow> string \<Rightarrow> string \<Rightarrow> string list option \<Rightarrow> server \<Rightarrow> server" where
  "prompt_async e job_id text extra_flags s =
     (let (now, w1) = datetime_now e (api s);
          s1 = s\<lparr>api := w1,
                 job_results := (job_results s)(job_id \<mapsto>
                   \<lparr>status = ''processing'', job_result = None, started_at = Some now, completed_at = None\<rparr>)\<rparr>;
          (queue_size, s2) = api_prompt_async e text (Some job_id) extra_flags s1
      in s2)"

text \<open>
  One iteration of \<^verbatim>\<open>_process_queue\<close>, the only consumer of the queue: on an empty queue
  \<^verbatim>\<open>get\<close> raises \<^verbatim>\<open>queue.Empty\<close> and the loop goes on; otherwise the request at the head
  is served by \<^verbatim>\<open>prompt\<close> (with the default \<^verbatim>\<open>use_cache=True\<close>) and its callback is called
  with the result.
\<close>

definition process_queue :: "config \<Rightarrow> env \<Rightarrow> server \<Rightarrow> server" where
  "process_queue c e s =
     (case request_queue s of
        [] \<Rightarrow> s
      | request # rest \<Rightarrow>
          (let (r, w1) = prompt c e (q_prompt request) (q_extra_flags request) True (api s);
               s1 = s\<lparr>api := w1, request_queue := rest\<rparr>
           in case q_callback request of
                Some job_id \<Rightarrow> callback e job_id r s1
              | None \<Rightarrow> s1))"

text \<open>The route \<^verbatim>\<open>GET /job/<job_id>\<close>: \<open>None\<close> is the 404 answer.\<close>

definition get_job :: "string \<Rightarrow> server \<Rightarrow> job option" where
  "get_job job_id s = job_results s job_id"

text \<open>
  A run of the server, as far as jobs go: requests to \<^verbatim>\<open>/prompt/async\<close> (with the job id
  that \<^verbatim>\<open>uuid4\<close> gives them) and iterations of the worker, in any order.
\<close>

datatype server_event = PromptAsync string string "string list option" | Worker

fun server_step :: "config \<Rightarrow> env \<Rightarrow> server_event \<Rightarrow> server \<Rightarrow> server" where
  "server_step c e (PromptAsync job_id text extra_flags) s = prompt_async e job_id text extra_flags s"
| "server_step c e Worker s = process_queue c e s"

definition server_run :: "config \<Rightarrow> env \<Rightarrow> server_event list \<Rightarrow> server \<Rightarrow> server" where
  "server_run c e evs s = fold (server_step c e) evs s"


section \<open>Requests going through the rate limiter\<close>

text \<open>
  Every caller of the limiter (\<^verbatim>\<open>prompt\<close>) first calls \<^verbatim>\<open>can_make_request\<close> and, only if
  that allowed it and the command succeeded, later calls \<^verbatim>\<open>record_request\<close>. Both methods
  hold the limiter's lock for their whole body, so a run of the process is a sequence of
  such calls, each tagged with the request that makes it. The set is that of the requests
  that were allowed and have not recorded yet.
\<close>

datatype limiter_call = Check nat | Record nat string nat

fun limiter_step :: "int \<Rightarrow> env \<Rightarrow> limiter_call \<Rightarrow> world \<times> nat set \<Rightarrow> world \<times> nat set" where
  "limiter_step mx e (Check r) (w, A) =
     (let ((can_proceed, wait), w') = can_make_request mx e w
      in (w', if can_proceed then insert r A else A - {r}))"
| "limiter_step mx e (Record r text len) (w, A) =
     (if r \<in> A then (record_request e text len w, A - {r}) else (w, A))"

text \<open>The states a sequence of calls goes through, the first and the last included.\<close>

fun limiter_states ::
  "int \<Rightarrow> env \<Rightarrow> limiter_call list \<Rightarrow> world \<times> nat set \<Rightarrow> (world \<times> nat set) list" where
  "limiter_states mx e [] s = [s]"
| "limiter_states mx e (c # cs) s = s # limiter_states mx e cs (limiter_step mx e c s)"

text \<open>
  Requests served one at a time: each one checks and, when its command succeeded (with
  the prompt and the length that it then records), records before the next one checks.
\<close>

definition serial :: "(nat \<times> (string \<times> nat) option) list \<Rightarrow> limiter_call list" where
  "serial reqs =
     concat (map (\<lambda>(r, done). Check r # (case done of Some (text, len) \<Rightarrow> [Record r text len] | None \<Rightarrow> []))
               reqs)"

text \<open>
  The quota holds in a state: at this and every later reading of the clock, the rows
  stamped within the trailing 3600 seconds are at most \<open>mx\<close>.
\<close>

definition within_quota :: "int \<Rightarrow> env \<Rightarrow> world \<Rightarrow> bool" where
  "within_quota mx e w \<longleftrightarrow>
     (\<forall>k\<ge>ticks w. int (count_recent (utc_seconds e k) (requests w)) \<le> mx)"

definition clock_mono :: "env \<Rightarrow> bool" where
  "clock_mono e \<longleftrightarrow> (\<forall>i j. i \<le> j \<longrightarrow> utc_micros e i \<le> utc_micros e j)"

section \<open>Concrete configurations, environments and states\<close>

text \<open>The defaults of \<^verbatim>\<open>GeminiAPI(...)\<close>, and a process that has just started on an empty table.\<close>

definition default_config :: config where
  "default_config = \<lparr>auto_approve = True, checkpointing = True, max_retries = 3, max_requests = 950\<rparr>"

definition no_result :: result where
  "no_result = \<lparr>success = False, output_field = None, error = None, command = None,
                 wait_time = None, usage = None, attempt = None, from_cache = None\<rparr>"

definition fresh_world :: world where
  "fresh_world = \<lparr>requests = [], heap = (\<lambda>r. no_result), next_ref = 0, response_cache = Map.empty,
                   trace = [], ticks = 0\<rparr>"

text \<open>
  A host on UTC whose clock advances by one second at every reading, with a stand-in for
  \<^verbatim>\<open>md5\<close> and \<^verbatim>\<open>str\<close>, and a \<^verbatim>\<open>gemini\<close> that always exits with status 1.
\<close>

definition failing_env :: env where
  "failing_env = \<lparr>gemini = (\<lambda>k argv. Exited 1 ''partial'' ''boom''),
                   utc_micros = (\<lambda>k. int k * 1000000),
                   utc_offset = 0,
                   md5_hex = (\<lambda>s. s),
                   str_flags = (\<lambda>fl. case fl of None \<Rightarrow> ''None'' | Some fs \<Rightarrow> concat fs)\<rparr>"

text \<open>The same host with a \<^verbatim>\<open>gemini\<close> that always succeeds.\<close>

definition ticking_env :: env where
  "ticking_env = failing_env\<lparr>gemini := (\<lambda>k argv. Exited 0 ''ok'' [])\<rparr>"

text \<open>A host on UTC at 12:30:00 on the first day of the epoch, and a limit of one request.\<close>

definition utc_env :: env where
  "utc_env = ticking_env\<lparr>utc_micros := (\<lambda>k. 45000 * 1000000)\<rparr>"

definition limit_one :: config where
  "limit_one = default_config\<lparr>max_requests := 1\<rparr>"

text \<open>A \<^verbatim>\<open>gemini\<close> that fails twice and succeeds from then on.\<close>

definition flaky_env :: env where
  "flaky_env =
     ticking_env\<lparr>gemini := (\<lambda>k argv. if k < 2 then Exited 1 [] ''boom'' else Exited 0 ''ok'' [])\<rparr>"

text \<open>
  A host two hours ahead of UTC at the same moment, and a table with one row stamped
  12:00:00 UTC.
\<close>

definition utc_plus2_env :: env where
  "utc_plus2_env = utc_env\<lparr>utc_offset := 7200\<rparr>"

definition one_row_world :: world where
  "one_row_world =
     fresh_world\<lparr>requests := [\<lparr>timestamp = 43200, prompt_hash = ''h'', response_length = 2\<rparr>]\<rparr>"

text \<open>The server when it starts: no job, nothing queued.\<close>

definition fresh_server :: server where
  "fresh_server = \<lparr>api = fresh_world, request_queue = [], job_results = Map.empty\<rparr>"







section \<open>Facts about the rate limiter\<close>

lemma utc_seconds_mono: "clock_mono e \<Longrightarrow> i \<le> j \<Longrightarrow> utc_seconds e i \<le> utc_seconds e j"
  unfolding clock_mono_def utc_seconds_def by (simp add: zdiv_mono1)

lemma count_recent_antimono: "t \<le> t' \<Longrightarrow> count_recent t' rs \<le> count_recent t rs"
  unfolding count_recent_def by (induction rs) auto

lemma count_recent_delete_old:
  "t_del \<le> t_cnt \<Longrightarrow> count_recent t_cnt (delete_old t_del rs) = count_recent t_cnt rs"
  unfolding count_recent_def delete_old_def by (induction rs) auto

lemma count_recent_snoc: "count_recent t (rs @ [r]) \<le> Suc (count_recent t rs)"
  unfolding count_recent_def by simp

lemma can_make_request_frame:
  "can_make_request mx e w = (res, w') \<Longrightarrow>
     requests w' = requests w \<and> heap w' = heap w \<and> next_ref w' = next_ref w \<and>
     response_cache w' = response_cache w \<and> trace w' = trace w \<and>
     ticks w + 2 \<le> ticks w'"
  unfolding can_make_request_def sql_now_def datetime_now_def
  by (auto simp: Let_def split: if_splits option.splits)

lemma can_make_request_allowed:
  "can_make_request mx e w = ((True, wait), w') \<Longrightarrow>
     int (count_recent (utc_seconds e (Suc (ticks w))) (delete_old (utc_seconds e (ticks w)) (requests w))) < mx"
  unfolding can_make_request_def sql_now_def datetime_now_def
  by (auto simp: Let_def split: if_splits option.splits)

section \<open>The command executor\<close>

lemma execute_result_success:
  "success (execute_result cmd oc) \<longleftrightarrow> (\<exists>out err. oc = Exited 0 out err)"
  unfolding execute_result_def by (cases oc) auto

lemma runs_of_append: "runs_of (xs @ ys) = runs_of xs @ runs_of ys"
  by (induction xs rule: runs_of.induct) auto

lemma execute_gemini_command_heap:
  "execute_gemini_command c e text extra_flags w = (r, w') \<Longrightarrow>
     heap w' r = execute_result (build_cmd c text extra_flags)
                   (gemini e (length (commands w)) (build_cmd c text extra_flags))"
  unfolding execute_gemini_command_def new_dict_def by (auto simp: Let_def)

text \<open>
  Claim C3, as stated, fails: a child that exits with status 1 after writing
  \<^verbatim>\<open>partial\<close> to its standard output and \<^verbatim>\<open>boom\<close> to its standard error gives a failure
  whose output field is the standard output, not the standard error.
\<close>

theorem executor_output_counterexample:
  "\<not> success (execute_result [''gemini'', ''-p'', ''hi''] (Exited 1 ''partial'' ''boom''))
   \<and> output_field (execute_result [''gemini'', ''-p'', ''hi''] (Exited 1 ''partial'' ''boom''))
       = Some (Some ''partial'')
   \<and> output_field (execute_result [''gemini'', ''-p'', ''hi''] (Exited 1 ''partial'' ''boom''))
       \<noteq> Some (Some ''boom'')"
  by (simp add: execute_result_def)

text \<open>
  Claim C3, amended: for every invocation of the command executor, the result is a
  failure exactly when the child exits non-zero, the timeout expires, or the call raises
  any other exception. Whenever the child exits, with whatever status, the output field is
  its captured standard output; the captured standard error is returned in the error
  field, and only on a non-zero exit. On a timeout or another exception the output field
  is \<^verbatim>\<open>None\<close> and the error field holds a message.
\<close>

theorem executor_outcome:
  assumes "execute_gemini_command c e text extra_flags w = (r, w')"
  shows "let oc = gemini e (length (commands w)) (build_cmd c text extra_flags); d = heap w' r
         in (\<not> success d \<longleftrightarrow>
               (\<exists>rc out err. oc = Exited rc out err \<and> rc \<noteq> 0) \<or> oc = TimeoutExpired
               \<or> (\<exists>msg. oc = OtherException msg))
          \<and> (\<forall>rc out err. oc = Exited rc out err \<longrightarrow>
               output_field d = Some (Some out) \<and> error d = (if rc \<noteq> 0 then Some err else None))
          \<and> (oc = TimeoutExpired \<longrightarrow>
               output_field d = Some None \<and> error d = Some ''Command timed out after 5 minutes'')
          \<and> (\<forall>msg. oc = OtherException msg \<longrightarrow> output_field d = Some None \<and> error d = Some msg)"
proof -
  let ?cmd = "build_cmd c text extra_flags"
  let ?oc = "gemini e (length (commands w)) ?cmd"
  have d: "heap w' r = execute_result ?cmd ?oc"
    using assms by (rule execute_gemini_command_heap)
  show ?thesis
    unfolding Let_def d execute_result_def by (cases ?oc) auto
qed

text \<open>
  Witness for C3: the default configuration running a \<^verbatim>\<open>gemini\<close> that exits with status 1
  returns, at reference 0, a failure with the standard output in the output field and the
  standard error in the error field.
\<close>

theorem executor_outcome_witness:
  "fst (execute_gemini_command default_config failing_env ''hi'' None fresh_world) = 0
   \<and> \<not> success (heap (snd (execute_gemini_command default_config failing_env ''hi'' None fresh_world)) 0)
   \<and> output_field (heap (snd (execute_gemini_command default_config failing_env ''hi'' None fresh_world)) 0)
       = Some (Some ''partial'')
   \<and> error (heap (snd (execute_gemini_command default_config failing_env ''hi'' None fresh_world)) 0)
       = Some ''boom''"
proof -
  have ref: "fst (execute_gemini_command default_config failing_env ''hi'' None fresh_world) = 0"
    by (simp add: execute_gemini_command_def new_dict_def fresh_world_def Let_def)
  then have run: "execute_gemini_command default_config failing_env ''hi'' None fresh_world
             = (0, snd (execute_gemini_command default_config failing_env ''hi'' None fresh_world))"
    by (metis prod.collapse)
  have oc: "gemini failing_env (length (commands fresh_world)) (build_cmd default_config ''hi'' None)
            = Exited 1 ''partial'' ''boom''"
    by (simp add: failing_env_def commands_def fresh_world_def)
  show ?thesis
    using executor_outcome [OF run] ref unfolding oc Let_def by simp
qed

section \<open>The waiting time of a denied request\<close>

lemma fold_min_Min: "fold min ts (t::int) = Min (set (t # ts))"
  by (rule Min.set_eq_fold [symmetric])

lemma min_recent_None: "min_recent now rs = None \<longleftrightarrow> count_recent now rs = 0"
  unfolding min_recent_def count_recent_def
  by (induction rs) (auto split: list.splits)

text \<open>What \<^verbatim>\<open>SELECT MIN(timestamp)\<close> finds is the oldest row of the window.\<close>

lemma min_recent_Some:
  assumes "min_recent now rs = Some t"
  shows "t \<in> timestamp ` set rs \<and> t > now - 3600
         \<and> (\<forall>r\<in>set rs. timestamp r > now - 3600 \<longrightarrow> t \<le> timestamp r)"
proof -
  let ?ts = "filter (\<lambda>t. t > now - 3600) (map timestamp rs)"
  from assms obtain x xs where xs: "?ts = x # xs" and t: "t = fold min xs x"
    unfolding min_recent_def by (auto split: list.splits)
  have tMin: "t = Min (set ?ts)" unfolding xs t by (rule fold_min_Min)
  have ne: "set ?ts \<noteq> {}" using xs by auto
  have mem: "t \<in> set ?ts" unfolding tMin using ne by (intro Min_in) auto
  have le: "\<forall>y\<in>set ?ts. t \<le> y" unfolding tMin by auto
  show ?thesis using mem le by auto
qed

text \<open>
  A denial answers 60 when the \<^verbatim>\<open>MIN\<close> query finds no row, and otherwise the oldest
  timestamp plus one hour minus \<^verbatim>\<open>datetime.now()\<close>, truncated and raised to 1. The
  timestamp is UTC, \<^verbatim>\<open>datetime.now()\<close> is local time.
\<close>

lemma can_make_request_denied:
  assumes "can_make_request mx e w = ((False, wait), w')"
  shows "wait = (case min_recent (utc_seconds e (Suc (Suc (ticks w)))) (requests w) of
                   None \<Rightarrow> Some 60
                 | Some oldest \<Rightarrow>
                     Some (max 1 (int_total_seconds
                       ((oldest + 3600) * 1000000
                        - (utc_micros e (Suc (Suc (Suc (ticks w)))) + utc_offset e * 1000000)))))"
  using assms unfolding can_make_request_def sql_now_def datetime_now_def
  by (auto simp: Let_def split: if_splits option.splits)

lemma can_make_request_wait_positive:
  assumes "can_make_request mx e w = ((False, wait), w')"
  shows "\<exists>n. wait = Some n \<and> 0 < n"
  using can_make_request_denied [OF assms] by (auto split: option.splits)

text \<open>
  Claim C7 on a host two hours ahead of UTC: the limit is 1 and the only row was written
  30 minutes ago, so the request is denied and the row leaves the window in 1800 seconds
  (it is still counted 1799 seconds later, and no longer 1800 seconds later). The code
  answers a waiting time of 1 second: it subtracts the local time from a UTC timestamp.
\<close>

theorem wait_time_on_local_clock:
  "fst (can_make_request 1 utc_plus2_env one_row_world) = (False, Some 1)
   \<and> count_recent (45000 + 1799) (requests one_row_world) = 1
   \<and> count_recent (45000 + 1800) (requests one_row_world) = 0"
  by (simp add: can_make_request_def sql_now_def datetime_now_def utc_seconds_def Let_def
      utc_plus2_env_def utc_env_def ticking_env_def failing_env_def one_row_world_def fresh_world_def
      count_recent_def delete_old_def min_recent_def int_total_seconds_def)

section \<open>The quota\<close>

lemma record_request_effect:
  "requests (record_request e p len w) =
     requests w @ [\<lparr>timestamp = utc_seconds e (ticks w), prompt_hash = md5_hex e p, response_length = len\<rparr>]
   \<and> ticks (record_request e p len w) = Suc (ticks w)"
  unfolding record_request_def sql_now_def by (simp add: Let_def)

lemma within_quota_check:
  assumes "within_quota mx e w" and "can_make_request mx e w = (res, w')"
  shows "within_quota mx e w'"
  using assms can_make_request_frame [OF assms(2)] unfolding within_quota_def by auto

text \<open>After an allowed check there is room for one more row, as long as nobody else records.\<close>

lemma headroom_after_check:
  assumes mono: "clock_mono e" and run: "can_make_request mx e w = ((True, wait), w')"
    and k: "ticks w' \<le> k"
  shows "int (count_recent (utc_seconds e k) (requests w')) < mx"
proof -
  have fr: "requests w' = requests w" "ticks w + 2 \<le> ticks w'"
    using can_make_request_frame [OF run] by auto
  have t01: "utc_seconds e (ticks w) \<le> utc_seconds e (Suc (ticks w))"
    using mono by (simp add: utc_seconds_mono)
  have t1k: "utc_seconds e (Suc (ticks w)) \<le> utc_seconds e k"
    using mono fr(2) k by (simp add: utc_seconds_mono)
  have "count_recent (utc_seconds e k) (requests w)
          \<le> count_recent (utc_seconds e (Suc (ticks w))) (requests w)"
    using t1k by (rule count_recent_antimono)
  also have "\<dots> = count_recent (utc_seconds e (Suc (ticks w)))
                     (delete_old (utc_seconds e (ticks w)) (requests w))"
    using t01 by (simp add: count_recent_delete_old)
  finally show ?thesis
    using can_make_request_allowed [OF run] fr(1) by simp
qed

lemma within_quota_record:
  assumes room: "\<forall>k\<ge>ticks w. int (count_recent (utc_seconds e k) (requests w)) < mx"
  shows "within_quota mx e (record_request e p len w)"
  unfolding within_quota_def
proof (intro allI impI)
  fix k assume "ticks (record_request e p len w) \<le> k"
  then have k: "ticks w \<le> k" by (simp add: record_request_effect)
  have "count_recent (utc_seconds e k) (requests (record_request e p len w))
          \<le> Suc (count_recent (utc_seconds e k) (requests w))"
    by (simp add: record_request_effect count_recent_snoc)
  then show "int (count_recent (utc_seconds e k) (requests (record_request e p len w))) \<le> mx"
    using room k by fastforce
qed

lemma serial_Cons:
  "serial ((r, done) # reqs) =
     Check r # (case done of Some (p, len) \<Rightarrow> [Record r p len] | None \<Rightarrow> []) @ serial reqs"
  unfolding serial_def by simp

lemma check_then_record:
  assumes mono: "clock_mono e" and q: "within_quota mx e w"
    and s1: "limiter_step mx e (Check r) (w, A) = (w1, A1)"
    and s2: "limiter_step mx e (Record r p len) (w1, A1) = (w2, A2)"
  shows "within_quota mx e w1 \<and> within_quota mx e w2"
proof -
  obtain ok wait where run: "can_make_request mx e w = ((ok, wait), w1)"
    and A1: "A1 = (if ok then insert r A else A - {r})"
    using s1 by (auto simp: Let_def split: prod.splits)
  have q1: "within_quota mx e w1" using q run by (rule within_quota_check)
  show ?thesis
  proof (cases ok)
    case True
    then have room: "\<forall>k\<ge>ticks w1. int (count_recent (utc_seconds e k) (requests w1)) < mx"
      using headroom_after_check [OF mono, of mx w wait w1] run by simp
    have "w2 = record_request e p len w1" using s2 A1 True by simp
    then show ?thesis using q1 within_quota_record [OF room] by simp
  next
    case False
    then have "w2 = w1" using s2 A1 by simp
    then show ?thesis using q1 by simp
  qed
qed

lemma clock_mono_ticking: "clock_mono ticking_env"
  by (simp add: clock_mono_def ticking_env_def failing_env_def)

lemma within_quota_fresh: "0 \<le> mx \<Longrightarrow> within_quota mx e fresh_world"
  by (simp add: within_quota_def fresh_world_def count_recent_def)

text \<open>
  Claim C1, as stated, fails: with a limit of 1 and an empty table, two requests that
  both check before either records are both allowed, and after both have recorded two
  rows are within the trailing hour.
\<close>

theorem interleaved_requests_counterexample:
  "1 < int (count_recent (utc_seconds ticking_env 6)
       (requests (fst (last (limiter_states 1 ticking_env
          [Check 0, Check 1, Record 0 ''a'' 2, Record 1 ''b'' 2] (fresh_world, {}))))))"
  by (simp add: can_make_request_def record_request_def sql_now_def datetime_now_def
      utc_seconds_def Let_def ticking_env_def failing_env_def fresh_world_def count_recent_def
      delete_old_def min_recent_def int_total_seconds_def)

text \<open>
  Claim C1, amended: when the requests go through the rate limiter one at a time (each
  request calls \<^verbatim>\<open>can_make_request\<close> and, only if allowed and after success, calls
  \<^verbatim>\<open>record_request\<close> before the next request calls \<^verbatim>\<open>can_make_request\<close>), the clock never
  goes back, and the table starts within the quota, then at no point does the number of
  stored rows with a timestamp within the trailing 3600 seconds exceed \<^verbatim>\<open>max_requests\<close>.
\<close>

theorem serial_requests_within_quota:
  assumes "clock_mono e" and "within_quota mx e w"
  shows "\<forall>s\<in>set (limiter_states mx e (serial reqs) (w, A)). within_quota mx e (fst s)"
  using assms(2)
proof (induction reqs arbitrary: w A)
  case Nil
  then show ?case by (simp add: serial_def)
next
  case (Cons req reqs)
  obtain r "done" where req: "req = (r, done)" by (cases req)
  obtain w1 A1 where s1: "limiter_step mx e (Check r) (w, A) = (w1, A1)" by fastforce
  show ?case
  proof (cases "done")
    case None
    obtain ok wait where run: "can_make_request mx e w = ((ok, wait), w1)"
      using s1 by (auto simp: Let_def split: prod.splits)
    have q1: "within_quota mx e w1" using Cons.prems run by (rule within_quota_check)
    show ?thesis
      using Cons.prems Cons.IH [OF q1, of A1] s1 by (simp add: req None serial_Cons)
  next
    case (Some pl)
    obtain p len where pl: "pl = (p, len)" by (cases pl)
    obtain w2 A2 where s2: "limiter_step mx e (Record r p len) (w1, A1) = (w2, A2)" by fastforce
    have q12: "within_quota mx e w1 \<and> within_quota mx e w2"
      using assms(1) Cons.prems s1 s2 by (rule check_then_record)
    show ?thesis
      using Cons.prems q12 Cons.IH [of w2 A2] s1 s2 by (simp add: req Some pl serial_Cons)
  qed
qed

text \<open>
  Witness for C1: with a limit of 1 and an empty table, two requests served one after the
  other end within the quota; the second one was denied, so one row is stored.
\<close>

theorem serial_requests_within_quota_witness:
  "clock_mono ticking_env \<and> within_quota 1 ticking_env fresh_world
   \<and> within_quota 1 ticking_env (fst (last (limiter_states 1 ticking_env
        (serial [(0, Some (''a'', 2)), (1, Some (''b'', 2))]) (fresh_world, {}))))
   \<and> length (requests (fst (last (limiter_states 1 ticking_env
        (serial [(0, Some (''a'', 2)), (1, Some (''b'', 2))]) (fresh_world, {}))))) = 1"
proof -
  let ?sts = "limiter_states 1 ticking_env (serial [(0, Some (''a'', 2)), (1, Some (''b'', 2))]) (fresh_world, {})"
  have q: "within_quota 1 ticking_env fresh_world" by (simp add: within_quota_fresh)
  have ne: "?sts \<noteq> []" by (simp add: serial_def)
  have "within_quota 1 ticking_env (fst (last ?sts))"
    using serial_requests_within_quota [OF clock_mono_ticking q] last_in_set [OF ne] by blast
  moreover have "length (requests (fst (last ?sts))) = 1"
    by (simp add: serial_def can_make_request_def record_request_def sql_now_def datetime_now_def
      utc_seconds_def Let_def ticking_env_def failing_env_def fresh_world_def count_recent_def
      delete_old_def min_recent_def int_total_seconds_def)
  ultimately show ?thesis using clock_mono_ticking q by simp
qed

section \<open>Facts about \<^verbatim>\<open>prompt\<close>\<close>

lemma get_usage_stats_fst:
  "fst (get_usage_stats mx e w) =
     \<lparr>requests_last_hour = count_recent (utc_seconds e (ticks w)) (requests w),
      requests_today =
        length (filter (\<lambda>r. timestamp r > start_of_day (utc_seconds e (Suc (ticks w)))) (requests w)),
      remaining_this_hour = mx - int (count_recent (utc_seconds e (ticks w)) (requests w)),
      max_per_hour = mx\<rparr>"
  unfolding get_usage_stats_def sql_now_def by (simp add: Let_def)

lemma get_usage_stats_snd: "snd (get_usage_stats mx e w) = w\<lparr>ticks := Suc (Suc (ticks w))\<rparr>"
  unfolding get_usage_stats_def sql_now_def by (simp add: Let_def)

lemma get_usage_stats_eq:
  "get_usage_stats mx e w = (fst (get_usage_stats mx e w), w\<lparr>ticks := Suc (Suc (ticks w))\<rparr>)"
  by (metis get_usage_stats_snd prod.collapse)

text \<open>The snapshot depends on the table and the clock only.\<close>

lemma get_usage_stats_cong:
  "requests v = requests w \<Longrightarrow> ticks v = ticks w \<Longrightarrow>
     fst (get_usage_stats mx e v) = fst (get_usage_stats mx e w)"
  by (simp add: get_usage_stats_fst)

lemma execute_gemini_command_eq:
  "execute_gemini_command c e p fl w =
     (next_ref w,
      w\<lparr>trace := trace w @ [Run (build_cmd c p fl)],
        heap := (heap w)(next_ref w :=
                 execute_result (build_cmd c p fl) (gemini e (length (commands w)) (build_cmd c p fl))),
        next_ref := Suc (next_ref w)\<rparr>)"
  unfolding execute_gemini_command_def new_dict_def by (simp add: Let_def commands_def)

text \<open>When the cache is not used or has no entry, \<^verbatim>\<open>prompt\<close> goes to the rate limiter.\<close>

lemma prompt_miss:
  assumes "\<not> (use_cache \<and> cache_key e p fl \<in> dom (response_cache w))"
  shows "prompt c e p fl use_cache w =
     (let ((can_proceed, wait), w1) = can_make_request (max_requests c) e w
      in if \<not> can_proceed then
           (let (u, w2) = get_usage_stats (max_requests c) e w1
            in new_dict (rate_limited wait u) w2)
         else
           (case retry_loop c e p fl use_cache (nat (max_retries c)) 0 None w1 of
              (Returned r, w2) \<Rightarrow> (r, w2)
            | (Exhausted last_error, w2) \<Rightarrow>
                (let (u, w3) = get_usage_stats (max_requests c) e w2
                 in new_dict (retries_failed (max_retries c) last_error u) w3)))"
proof -
  have "(if use_cache then response_cache w (cache_key e p fl) else None) = None"
    using assms by (auto simp: dom_def)
  then show ?thesis unfolding prompt_def by (simp add: Let_def)
qed

text \<open>One iteration of the retry loop whose command fails, and one whose command succeeds.\<close>

lemma retry_loop_failure:
  assumes "\<not> success (execute_result (build_cmd c p fl) (gemini e (length (commands w)) (build_cmd c p fl)))"
  shows "retry_loop c e p fl uc (Suc n) k le w =
           retry_loop c e p fl uc n (Suc k)
             (error (execute_result (build_cmd c p fl) (gemini e (length (commands w)) (build_cmd c p fl))))
             (w\<lparr>trace := trace w @ (if 0 < k then [Sleep (2 ^ k)] else []) @ [Run (build_cmd c p fl)],
                heap := (heap w)(next_ref w :=
                   execute_result (build_cmd c p fl) (gemini e (length (commands w)) (build_cmd c p fl))),
                next_ref := Suc (next_ref w)\<rparr>)"
  using assms
  by (simp add: execute_gemini_command_eq sleep_def Let_def commands_def runs_of_append)

lemma retry_loop_success:
  assumes "gemini e (length (commands w)) (build_cmd c p fl) = Exited 0 out err"
  shows "retry_loop c e p fl uc (Suc n) k le w =
           (Returned (next_ref w),
            w\<lparr>trace := trace w @ (if 0 < k then [Sleep (2 ^ k)] else []) @ [Run (build_cmd c p fl)],
              requests := requests w @
                [\<lparr>timestamp = utc_seconds e (ticks w), prompt_hash = md5_hex e p, response_length = length out\<rparr>],
              response_cache :=
                (if uc then (response_cache w)(cache_key e p fl \<mapsto> next_ref w) else response_cache w),
              ticks := Suc (Suc (Suc (ticks w))),
              heap := (heap w)(next_ref w :=
                (execute_result (build_cmd c p fl) (Exited 0 out err))
                  \<lparr>usage := Some (fst (get_usage_stats (max_requests c) e
                       (w\<lparr>requests := requests w @
                            [\<lparr>timestamp = utc_seconds e (ticks w), prompt_hash = md5_hex e p,
                              response_length = length out\<rparr>],
                          ticks := Suc (ticks w)\<rparr>))),
                    attempt := Some (Suc k)\<rparr>),
              next_ref := Suc (next_ref w)\<rparr>)"
  using assms
  by (simp add: execute_gemini_command_eq sleep_def Let_def execute_result_def len_output_def
      record_request_def sql_now_def get_usage_stats_def dict_update_def commands_def runs_of_append)
lemma failed_attempt_has_error:
  "\<not> success (execute_result cmd oc) \<Longrightarrow> \<exists>msg. error (execute_result cmd oc) = Some msg"
  unfolding execute_result_def by (cases oc) (auto split: if_splits)

text \<open>
  A loop whose commands all fail runs out, with the error of the last one; it leaves
  the table, the cache and the clock alone.
\<close>

lemma retry_loop_exhausted:
  assumes "\<forall>i<n. \<not> success (execute_result (build_cmd c p fl)
                     (gemini e (length (commands w) + i) (build_cmd c p fl)))"
  shows "\<exists>w'. retry_loop c e p fl uc n k le w =
                 (Exhausted (if n = 0 then le
                             else error (execute_result (build_cmd c p fl)
                                    (gemini e (length (commands w) + (n - 1)) (build_cmd c p fl)))), w')
             \<and> requests w' = requests w \<and> response_cache w' = response_cache w
             \<and> ticks w' = ticks w \<and> length (commands w') = length (commands w) + n"
  using assms
proof (induction n arbitrary: k le w)
  case 0
  then show ?case by simp
next
  case (Suc n)
  let ?cmd = "build_cmd c p fl"
  let ?d = "execute_result ?cmd (gemini e (length (commands w)) ?cmd)"
  let ?w2 = "w\<lparr>trace := trace w @ (if 0 < k then [Sleep (2 ^ k)] else []) @ [Run ?cmd],
               heap := (heap w)(next_ref w := ?d), next_ref := Suc (next_ref w)\<rparr>"
  have first: "\<not> success ?d" using Suc.prems by (metis add.right_neutral zero_less_Suc)
  have len: "length (commands ?w2) = Suc (length (commands w))"
    by (simp add: commands_def runs_of_append)
  have rest: "\<forall>i<n. \<not> success (execute_result ?cmd (gemini e (length (commands ?w2) + i) ?cmd))"
    using Suc.prems unfolding len by (metis Suc_less_eq add_Suc add_Suc_right)
  obtain w' where w': "retry_loop c e p fl uc n (Suc k) (error ?d) ?w2 =
        (Exhausted (if n = 0 then error ?d
                    else error (execute_result ?cmd (gemini e (length (commands ?w2) + (n - 1)) ?cmd))), w')"
      "requests w' = requests ?w2" "response_cache w' = response_cache ?w2"
      "ticks w' = ticks ?w2" "length (commands w') = length (commands ?w2) + n"
    using Suc.IH [OF rest, of "Suc k" "error ?d"] by blast
  have "retry_loop c e p fl uc (Suc n) k le w = retry_loop c e p fl uc n (Suc k) (error ?d) ?w2"
    using first by (rule retry_loop_failure)
  then show ?case
    using w' unfolding len by (cases n) auto
qed

text \<open>The loop only ever extends the trace, and its first iteration runs the command.\<close>

lemma retry_loop_trace:
  "retry_loop c e p fl uc n k le w = (x, w') \<Longrightarrow> \<exists>rest. trace w' = trace w @ rest"
proof (induction n arbitrary: k le w)
  case 0
  then show ?case by simp
next
  case (Suc n)
  let ?cmd = "build_cmd c p fl"
  let ?oc = "gemini e (length (commands w)) ?cmd"
  show ?case
  proof (cases "success (execute_result ?cmd ?oc)")
    case True
    then obtain out err where "?oc = Exited 0 out err"
      using execute_result_success by blast
    from retry_loop_success [OF this, of uc n k le] Suc.prems show ?thesis by auto
  next
    case False
    from retry_loop_failure [OF this, of uc n k le] Suc.prems Suc.IH show ?thesis
      by fastforce
  qed
qed

lemma retry_loop_first_run:
  assumes "retry_loop c e p fl uc (Suc n) 0 le w = (x, w')"
  shows "\<exists>rest. trace w' = trace w @ Run (build_cmd c p fl) # rest"
proof -
  let ?cmd = "build_cmd c p fl"
  let ?oc = "gemini e (length (commands w)) ?cmd"
  show ?thesis
  proof (cases "success (execute_result ?cmd ?oc)")
    case True
    then obtain out err where "?oc = Exited 0 out err"
      using execute_result_success by blast
    from retry_loop_success [OF this, of uc n 0 le] assms show ?thesis by auto
  next
    case False
    from retry_loop_failure [OF this, of uc n 0 le] assms
    obtain rest where "trace w' = (trace w @ [Run ?cmd]) @ rest"
      using retry_loop_trace by fastforce
    then show ?thesis by simp
  qed
qed

text \<open>A result returned from inside the loop is a success; with the cache on, it is stored.\<close>

lemma retry_loop_returned:
  "retry_loop c e p fl uc n k le w = (Returned r, w') \<Longrightarrow>
     success (heap w' r) \<and> (\<exists>u a. usage (heap w' r) = Some u \<and> attempt (heap w' r) = Some a)
     \<and> from_cache (heap w' r) = None
     \<and> (uc \<longrightarrow> response_cache w' (cache_key e p fl) = Some r)"
proof (induction n arbitrary: k le w)
  case 0
  then show ?case by simp
next
  case (Suc n)
  let ?cmd = "build_cmd c p fl"
  let ?oc = "gemini e (length (commands w)) ?cmd"
  show ?case
  proof (cases "success (execute_result ?cmd ?oc)")
    case True
    then obtain out err where "?oc = Exited 0 out err"
      using execute_result_success by blast
    from retry_loop_success [OF this, of uc n k le] Suc.prems show ?thesis
      by (auto simp: execute_result_def)
  next
    case False
    from retry_loop_failure [OF this, of uc n k le] Suc.prems Suc.IH show ?thesis
      by fastforce
  qed
qed

lemma prompt_hit:
  "response_cache w (cache_key e p fl) = Some a \<Longrightarrow>
     prompt c e p fl True w = (a, dict_update a (\<lambda>d. d\<lparr>from_cache := Some True\<rparr>) w)"
  unfolding prompt_def by (simp add: Let_def)

text \<open>
  A request with the cache on that returns a success leaves its result in the cache: the
  dictionary it returns is the object stored under its key.
\<close>

lemma successful_prompt_is_stored:
  assumes run: "prompt c e p fl True w = (r, w')" and ok: "success (heap w' r)"
  shows "response_cache w' (cache_key e p fl) = Some r"
proof (cases "response_cache w (cache_key e p fl)")
  case (Some a)
  then show ?thesis using run by (auto simp: prompt_hit dict_update_def)
next
  case None
  then have miss: "\<not> (True \<and> cache_key e p fl \<in> dom (response_cache w))" by (simp add: dom_def)
  obtain can_proceed wait w1 where lim: "can_make_request (max_requests c) e w = ((can_proceed, wait), w1)"
    by (metis prod.collapse)
  show ?thesis
  proof (cases can_proceed)
    case False
    obtain u w2 where us: "get_usage_stats (max_requests c) e w1 = (u, w2)" by fastforce
    have "(r, w') = new_dict (rate_limited wait u) w2"
      using run False by (simp add: prompt_miss [OF miss] lim us)
    then show ?thesis using ok unfolding new_dict_def by (auto simp: rate_limited_def)
  next
    case True
    obtain x w2 where loop: "retry_loop c e p fl True (nat (max_retries c)) 0 None w1 = (x, w2)"
      by (metis prod.collapse)
    show ?thesis
    proof (cases x)
      case (Returned r0)
      then have "r0 = r" "w2 = w'"
        using run True by (simp_all add: prompt_miss [OF miss] lim loop)
      then show ?thesis using retry_loop_returned loop Returned by blast
    next
      case (Exhausted last_error)
      obtain u w3 where us: "get_usage_stats (max_requests c) e w2 = (u, w3)" by fastforce
      have "(r, w') = new_dict (retries_failed (max_retries c) last_error u) w3"
        using run True by (simp add: prompt_miss [OF miss] lim loop Exhausted us)
      then show ?thesis using ok unfolding new_dict_def by (auto simp: retries_failed_def)
    qed
  qed
qed
section \<open>A request the rate limiter denies\<close>

text \<open>
  Claim C6: a request that is not served from the cache and that \<^verbatim>\<open>can_make_request\<close>
  denies gets at once the failure dictionary with a \<^verbatim>\<open>wait_time\<close> greater than 0 and the
  usage snapshot taken then; nothing is slept, no command is run (so no retry either),
  and the table and the cache are as before.
\<close>

theorem denied_request:
  assumes miss: "\<not> (use_cache \<and> cache_key e p fl \<in> dom (response_cache w))"
    and denied: "can_make_request (max_requests c) e w = ((False, wait), w1)"
    and run: "prompt c e p fl use_cache w = (r, w')"
  shows "heap w' r = rate_limited wait (fst (get_usage_stats (max_requests c) e w1))
       \<and> \<not> success (heap w' r)
       \<and> (\<exists>n. wait_time (heap w' r) = Some n \<and> 0 < n)
       \<and> usage (heap w' r) = Some (fst (get_usage_stats (max_requests c) e w1))
       \<and> trace w' = trace w
       \<and> requests w' = requests w \<and> response_cache w' = response_cache w"
proof -
  obtain n where n: "wait = Some n" "0 < n"
    using can_make_request_wait_positive [OF denied] by blast
  have fr: "requests w1 = requests w" "response_cache w1 = response_cache w" "trace w1 = trace w"
    using can_make_request_frame [OF denied] by auto
  have "(r, w') = new_dict (rate_limited wait (fst (get_usage_stats (max_requests c) e w1)))
                    (w1\<lparr>ticks := Suc (Suc (ticks w1))\<rparr>)"
    using run unfolding prompt_miss [OF miss] denied
    by (subst (asm) get_usage_stats_eq) simp
  then show ?thesis
    using n fr unfolding new_dict_def by (auto simp: rate_limited_def)
qed
text \<open>
  Witness for C6: on a UTC host, with a limit of 1 and one row written 30 minutes ago, a
  request is denied with a waiting time of 1800 seconds, and nothing is run or slept.
\<close>

theorem denied_request_witness:
  "fst (can_make_request (max_requests limit_one) utc_env one_row_world) = (False, Some 1800)
   \<and> \<not> success (heap (snd (prompt limit_one utc_env ''hi'' None True one_row_world))
                     (fst (prompt limit_one utc_env ''hi'' None True one_row_world)))
   \<and> wait_time (heap (snd (prompt limit_one utc_env ''hi'' None True one_row_world))
                     (fst (prompt limit_one utc_env ''hi'' None True one_row_world))) = Some 1800
   \<and> trace (snd (prompt limit_one utc_env ''hi'' None True one_row_world)) = []"
proof -
  let ?P = "prompt limit_one utc_env ''hi'' None True one_row_world"
  let ?L = "can_make_request (max_requests limit_one) utc_env one_row_world"
  have miss: "\<not> (True \<and> cache_key utc_env ''hi'' None \<in> dom (response_cache one_row_world))"
    by (simp add: one_row_world_def fresh_world_def)
  have lim: "fst ?L = (False, Some 1800)"
    by (simp add: can_make_request_def sql_now_def datetime_now_def utc_seconds_def Let_def
        limit_one_def default_config_def utc_env_def ticking_env_def failing_env_def
        one_row_world_def fresh_world_def count_recent_def delete_old_def min_recent_def
        int_total_seconds_def)
  then have denied: "?L = ((False, Some 1800), snd ?L)" by (metis prod.collapse)
  have run: "?P = (fst ?P, snd ?P)" by simp
  have "trace one_row_world = []" by (simp add: one_row_world_def fresh_world_def)
  then show ?thesis
    using denied_request [OF miss denied run] lim by (simp add: rate_limited_def)
qed
section \<open>Retries\<close>

text \<open>
  Claim C4: an admitted request with \<^verbatim>\<open>max_retries = 3\<close> whose command fails on the first
  two attempts and succeeds on the third runs the command, sleeps 2 seconds, runs it
  again, sleeps 4 seconds, runs it a third time and stops there; the result it returns is
  the success of the third run and reports 3 attempts.
\<close>

theorem two_failures_then_success:
  assumes miss: "\<not> (use_cache \<and> cache_key e p fl \<in> dom (response_cache w))"
    and admitted: "can_make_request (max_requests c) e w = ((True, wait), w1)"
    and retries: "max_retries c = 3"
    and first: "\<not> success (execute_result (build_cmd c p fl)
                   (gemini e (length (commands w)) (build_cmd c p fl)))"
    and second: "\<not> success (execute_result (build_cmd c p fl)
                   (gemini e (length (commands w) + 1) (build_cmd c p fl)))"
    and third: "gemini e (length (commands w) + 2) (build_cmd c p fl) = Exited 0 out err"
    and run: "prompt c e p fl use_cache w = (r, w')"
  shows "success (heap w' r) \<and> attempt (heap w' r) = Some 3
       \<and> output_field (heap w' r) = Some (Some out)
       \<and> trace w' = trace w @ [Run (build_cmd c p fl), Sleep 2, Run (build_cmd c p fl),
                                 Sleep 4, Run (build_cmd c p fl)]"
proof -
  have fr: "trace w1 = trace w"
    using can_make_request_frame [OF admitted] by auto
  have n3: "nat (max_retries c) = Suc (Suc (Suc 0))" using retries by simp
  have "\<exists>r0 w0. retry_loop c e p fl use_cache (Suc (Suc (Suc 0))) 0 None w1 = (Returned r0, w0)
          \<and> success (heap w0 r0) \<and> attempt (heap w0 r0) = Some 3
          \<and> output_field (heap w0 r0) = Some (Some out)
          \<and> trace w0 = trace w @ [Run (build_cmd c p fl), Sleep 2, Run (build_cmd c p fl),
                                    Sleep 4, Run (build_cmd c p fl)]"
    using first second third fr
    by (simp add: retry_loop_failure retry_loop_success [where out = out and err = err]
        execute_result_def commands_def runs_of_append del: retry_loop.simps(2))
  then show ?thesis
    using run unfolding prompt_miss [OF miss] admitted n3 by auto
qed
text \<open>
  Witness for C4: the default configuration on an empty table, with a \<^verbatim>\<open>gemini\<close> that
  fails twice and then prints \<^verbatim>\<open>ok\<close>.
\<close>

theorem two_failures_then_success_witness:
  "fst (can_make_request (max_requests default_config) flaky_env fresh_world) = (True, None)
   \<and> max_retries default_config = 3
   \<and> success (heap (snd (prompt default_config flaky_env ''hi'' None True fresh_world))
                  (fst (prompt default_config flaky_env ''hi'' None True fresh_world)))
   \<and> attempt (heap (snd (prompt default_config flaky_env ''hi'' None True fresh_world))
                  (fst (prompt default_config flaky_env ''hi'' None True fresh_world))) = Some 3
   \<and> output_field (heap (snd (prompt default_config flaky_env ''hi'' None True fresh_world))
                  (fst (prompt default_config flaky_env ''hi'' None True fresh_world))) = Some (Some ''ok'')
   \<and> trace (snd (prompt default_config flaky_env ''hi'' None True fresh_world)) =
       [Run [''gemini'', ''--yolo'', ''--checkpointing'', ''-p'', ''hi''], Sleep 2,
        Run [''gemini'', ''--yolo'', ''--checkpointing'', ''-p'', ''hi''], Sleep 4,
        Run [''gemini'', ''--yolo'', ''--checkpointing'', ''-p'', ''hi'']]"
proof -
  let ?P = "prompt default_config flaky_env ''hi'' None True fresh_world"
  let ?L = "can_make_request (max_requests default_config) flaky_env fresh_world"
  let ?cmd = "build_cmd default_config ''hi'' None"
  have miss: "\<not> (True \<and> cache_key flaky_env ''hi'' None \<in> dom (response_cache fresh_world))"
    by (simp add: fresh_world_def)
  have lim: "fst ?L = (True, None)"
    by (simp add: can_make_request_def sql_now_def utc_seconds_def Let_def default_config_def
        fresh_world_def count_recent_def delete_old_def)
  then have admitted: "?L = ((True, None), snd ?L)" by (metis prod.collapse)
  have retries: "max_retries default_config = 3" by (simp add: default_config_def)
  have len: "length (commands fresh_world) = 0" by (simp add: commands_def fresh_world_def)
  have first: "\<not> success (execute_result ?cmd (gemini flaky_env (length (commands fresh_world)) ?cmd))"
    unfolding len by (simp add: flaky_env_def ticking_env_def failing_env_def execute_result_def)
  have second: "\<not> success (execute_result ?cmd (gemini flaky_env (length (commands fresh_world) + 1) ?cmd))"
    unfolding len by (simp add: flaky_env_def ticking_env_def failing_env_def execute_result_def)
  have third: "gemini flaky_env (length (commands fresh_world) + 2) ?cmd = Exited 0 ''ok'' []"
    unfolding len by (simp add: flaky_env_def ticking_env_def failing_env_def)
  have run: "?P = (fst ?P, snd ?P)" by simp
  have cmd: "?cmd = [''gemini'', ''--yolo'', ''--checkpointing'', ''-p'', ''hi'']"
    by (simp add: build_cmd_def default_config_def)
  have "trace fresh_world = []" by (simp add: fresh_world_def)
  then show ?thesis
    using two_failures_then_success [OF miss admitted retries first second third run] lim retries
    unfolding cmd by simp
qed

section \<open>A request whose attempts all fail\<close>

text \<open>
  Claim C8: when a request is admitted and every one of its \<^verbatim>\<open>max_retries\<close> attempts
  fails, \<^verbatim>\<open>record_request\<close> is never called: the table is as it was before the request.
  The failure returned carries the error of the last attempt, after the words
  \<^verbatim>\<open>Failed after N attempts. Last error:\<close>, and the usage snapshot of that table.
\<close>

theorem all_attempts_fail:
  assumes miss: "\<not> (use_cache \<and> cache_key e p fl \<in> dom (response_cache w))"
    and admitted: "can_make_request (max_requests c) e w = ((True, wait), w1)"
    and retries: "0 < max_retries c"
    and fails: "\<forall>i<nat (max_retries c).
                  \<not> success (execute_result (build_cmd c p fl)
                       (gemini e (length (commands w) + i) (build_cmd c p fl)))"
    and run: "prompt c e p fl use_cache w = (r, w')"
  shows "requests w' = requests w
       \<and> response_cache w' = response_cache w
       \<and> \<not> success (heap w' r)
       \<and> (\<exists>msg. error (execute_result (build_cmd c p fl)
                    (gemini e (length (commands w) + (nat (max_retries c) - 1)) (build_cmd c p fl)))
                  = Some msg
              \<and> error (heap w' r) =
                  Some (''Failed after '' @ str_int (max_retries c) @ '' attempts. Last error: '' @ msg))
       \<and> usage (heap w' r) = Some (fst (get_usage_stats (max_requests c) e w1))
       \<and> requests w1 = requests w"
proof -
  let ?cmd = "build_cmd c p fl"
  let ?n = "nat (max_retries c)"
  let ?last = "execute_result ?cmd (gemini e (length (commands w) + (?n - 1)) ?cmd)"
  have fr: "requests w1 = requests w" "response_cache w1 = response_cache w" "trace w1 = trace w"
    using can_make_request_frame [OF admitted] by auto
  have len: "length (commands w1) = length (commands w)" using fr by (simp add: commands_def)
  have n: "?n \<noteq> 0" using retries by simp
  have fails1: "\<forall>i<?n. \<not> success (execute_result ?cmd (gemini e (length (commands w1) + i) ?cmd))"
    using fails unfolding len .
  obtain w2 where loop: "retry_loop c e p fl use_cache ?n 0 None w1 = (Exhausted (error ?last), w2)"
    and w2: "requests w2 = requests w1" "response_cache w2 = response_cache w1" "ticks w2 = ticks w1"
    using retry_loop_exhausted [OF fails1, of use_cache 0 None] n unfolding len by auto
  obtain u w3 where us: "get_usage_stats (max_requests c) e w2 = (u, w3)" by fastforce
  have u: "u = fst (get_usage_stats (max_requests c) e w1)"
    using us get_usage_stats_cong [of w2 w1 "max_requests c" e] w2 by (metis fst_conv)
  have w3: "w3 = w2\<lparr>ticks := Suc (Suc (ticks w2))\<rparr>"
    using us get_usage_stats_snd [of "max_requests c" e w2] by simp
  have res: "(r, w') = new_dict (retries_failed (max_retries c) (error ?last) u) w3"
    using run by (simp add: prompt_miss [OF miss] admitted loop us)
  have "?n - 1 < ?n" using n by simp
  then have "\<not> success ?last" using fails by blast
  then obtain msg where msg: "error ?last = Some msg"
    using failed_attempt_has_error by blast
  show ?thesis
    using res fr w2 msg u unfolding new_dict_def w3
    by (auto simp: retries_failed_def str_opt_str_def)
qed
text \<open>
  Witness for C8: the default configuration on an empty table, with a \<^verbatim>\<open>gemini\<close> that
  always exits with status 1 and \<^verbatim>\<open>boom\<close> on its standard error.
\<close>

theorem all_attempts_fail_witness:
  "fst (can_make_request (max_requests default_config) failing_env fresh_world) = (True, None)
   \<and> 0 < max_retries default_config
   \<and> requests (snd (prompt default_config failing_env ''hi'' None True fresh_world)) = []
   \<and> \<not> success (heap (snd (prompt default_config failing_env ''hi'' None True fresh_world))
                     (fst (prompt default_config failing_env ''hi'' None True fresh_world)))
   \<and> error (heap (snd (prompt default_config failing_env ''hi'' None True fresh_world))
                (fst (prompt default_config failing_env ''hi'' None True fresh_world)))
       = Some ''Failed after 3 attempts. Last error: boom''"
proof -
  let ?P = "prompt default_config failing_env ''hi'' None True fresh_world"
  let ?L = "can_make_request (max_requests default_config) failing_env fresh_world"
  let ?cmd = "build_cmd default_config ''hi'' None"
  have miss: "\<not> (True \<and> cache_key failing_env ''hi'' None \<in> dom (response_cache fresh_world))"
    by (simp add: fresh_world_def)
  have lim: "fst ?L = (True, None)"
    by (simp add: can_make_request_def sql_now_def utc_seconds_def Let_def default_config_def
        fresh_world_def count_recent_def delete_old_def)
  then have admitted: "?L = ((True, None), snd ?L)" by (metis prod.collapse)
  have retries: "0 < max_retries default_config" by (simp add: default_config_def)
  have fails: "\<forall>i<nat (max_retries default_config).
                 \<not> success (execute_result ?cmd (gemini failing_env (length (commands fresh_world) + i) ?cmd))"
    by (simp add: failing_env_def execute_result_def)
  have run: "?P = (fst ?P, snd ?P)" by simp
  have last: "error (execute_result ?cmd
                (gemini failing_env (length (commands fresh_world) + (nat (max_retries default_config) - 1)) ?cmd))
              = Some ''boom''"
    by (simp add: failing_env_def execute_result_def)
  have three: "str_int (max_retries default_config) = ''3''"
    by (simp add: default_config_def str_int_def str_nat.simps)
  have "requests fresh_world = []" by (simp add: fresh_world_def)
  then show ?thesis
    using all_attempts_fail [OF miss admitted retries fails run] lim retries
    unfolding last three by simp
qed
section \<open>The cache\<close>

lemma dict_update_frame:
  "requests (dict_update a f w) = requests w \<and> trace (dict_update a f w) = trace w
   \<and> ticks (dict_update a f w) = ticks w \<and> response_cache (dict_update a f w) = response_cache w
   \<and> next_ref (dict_update a f w) = next_ref w"
  by (simp add: dict_update_def)

text \<open>
  Claim C5: of two requests with the same prompt and flags and \<^verbatim>\<open>use_cache=True\<close>, when
  the first one returned a success, the second one returns the same dictionary object,
  marked \<^verbatim>\<open>from_cache\<close>, with the output the first one returned. The second request
  changes nothing but that mark: it runs no command and does not sleep, it reads no clock
  (so it calls neither \<^verbatim>\<open>can_make_request\<close> nor \<^verbatim>\<open>get_usage_stats\<close>), and it adds no row
  to the table.
\<close>

theorem second_request_from_cache:
  assumes first: "prompt c e p fl True w = (r1, w1)" and ok: "success (heap w1 r1)"
    and second: "prompt c e p fl True w1 = (r2, w2)"
  shows "r2 = r1
       \<and> from_cache (heap w2 r2) = Some True
       \<and> output_field (heap w2 r2) = output_field (heap w1 r1)
       \<and> success (heap w2 r2)
       \<and> w2 = dict_update r1 (\<lambda>d. d\<lparr>from_cache := Some True\<rparr>) w1
       \<and> trace w2 = trace w1 \<and> ticks w2 = ticks w1 \<and> requests w2 = requests w1"
proof -
  have "response_cache w1 (cache_key e p fl) = Some r1"
    using first ok by (rule successful_prompt_is_stored)
  then have "prompt c e p fl True w1 = (r1, dict_update r1 (\<lambda>d. d\<lparr>from_cache := Some True\<rparr>) w1)"
    by (rule prompt_hit)
  then have "r2 = r1" and w2: "w2 = dict_update r1 (\<lambda>d. d\<lparr>from_cache := Some True\<rparr>) w1"
    using second by simp_all
  then show ?thesis using ok by (simp add: dict_update_def)
qed

text \<open>
  Witness for C5: the default configuration on an empty table with a \<^verbatim>\<open>gemini\<close> that
  prints \<^verbatim>\<open>ok\<close>, asked the same prompt twice.
\<close>

theorem second_request_from_cache_witness:
  "success (heap (snd (prompt default_config ticking_env ''hi'' None True fresh_world))
                 (fst (prompt default_config ticking_env ''hi'' None True fresh_world)))
   \<and> fst (prompt default_config ticking_env ''hi'' None True
           (snd (prompt default_config ticking_env ''hi'' None True fresh_world)))
       = fst (prompt default_config ticking_env ''hi'' None True fresh_world)
   \<and> from_cache (heap (snd (prompt default_config ticking_env ''hi'' None True
                               (snd (prompt default_config ticking_env ''hi'' None True fresh_world))))
                       (fst (prompt default_config ticking_env ''hi'' None True
                               (snd (prompt default_config ticking_env ''hi'' None True fresh_world)))))
       = Some True
   \<and> trace (snd (prompt default_config ticking_env ''hi'' None True
                   (snd (prompt default_config ticking_env ''hi'' None True fresh_world))))
       = [Run [''gemini'', ''--yolo'', ''--checkpointing'', ''-p'', ''hi'']]"
proof -
  let ?P1 = "prompt default_config ticking_env ''hi'' None True fresh_world"
  let ?P2 = "prompt default_config ticking_env ''hi'' None True (snd ?P1)"
  let ?L = "can_make_request (max_requests default_config) ticking_env fresh_world"
  have miss: "\<not> (True \<and> cache_key ticking_env ''hi'' None \<in> dom (response_cache fresh_world))"
    by (simp add: fresh_world_def)
  have lim: "fst ?L = (True, None)"
    by (simp add: can_make_request_def sql_now_def utc_seconds_def Let_def default_config_def
        fresh_world_def count_recent_def delete_old_def)
  then obtain w1 where admitted: "?L = ((True, None), w1)" by (metis prod.collapse)
  have "trace w1 = trace fresh_world"
    using can_make_request_frame [OF admitted] by simp
  then have tr: "trace w1 = []" by (simp add: fresh_world_def)
  have len: "length (commands w1) = 0" unfolding commands_def tr by simp
  have cmd: "build_cmd default_config ''hi'' None = [''gemini'', ''--yolo'', ''--checkpointing'', ''-p'', ''hi'']"
    by (simp add: build_cmd_def default_config_def)
  have oc: "gemini ticking_env (length (commands w1)) (build_cmd default_config ''hi'' None)
            = Exited 0 ''ok'' []"
    by (simp add: ticking_env_def)
  have n3: "nat (max_retries default_config) = Suc (Suc (Suc 0))" by (simp add: default_config_def)
  note loop = retry_loop_success [OF oc, of True "Suc (Suc 0)" 0 None]
  have p1: "success (heap (snd ?P1) (fst ?P1))
            \<and> trace (snd ?P1) = [Run [''gemini'', ''--yolo'', ''--checkpointing'', ''-p'', ''hi'']]"
    by (simp add: prompt_miss [OF miss] admitted n3 loop execute_result_def tr cmd
        del: retry_loop.simps(2))
  have first: "?P1 = (fst ?P1, snd ?P1)" by simp
  have second: "?P2 = (fst ?P2, snd ?P2)" by simp
  have ok: "success (heap (snd ?P1) (fst ?P1))" using p1 by simp
  note hit = second_request_from_cache [OF first ok second]
  have same: "fst ?P2 = fst ?P1" using hit by blast
  have mark: "from_cache (heap (snd ?P2) (fst ?P2)) = Some True" using hit by blast
  have tr2: "trace (snd ?P2) = trace (snd ?P1)" using hit by blast
  show ?thesis
    using ok same mark tr2 p1 by (intro conjI) (simp_all only:)
qed

text \<open>
  What a request that is not served from the cache and succeeds returns: the dictionary
  of the successful run, with the usage snapshot and the attempt count written into it
  after it was stored, and without the \<^verbatim>\<open>from_cache\<close> key.
\<close>

lemma successful_miss_snapshot:
  assumes miss: "\<not> (uc \<and> cache_key e p fl \<in> dom (response_cache w))"
    and run: "prompt c e p fl uc w = (r, w')" and ok: "success (heap w' r)"
  shows "(\<exists>u a. usage (heap w' r) = Some u \<and> attempt (heap w' r) = Some a)
         \<and> from_cache (heap w' r) = None"
proof -
  obtain can_proceed wait w1 where lim: "can_make_request (max_requests c) e w = ((can_proceed, wait), w1)"
    by (metis prod.collapse)
  show ?thesis
  proof (cases can_proceed)
    case False
    obtain u w2 where us: "get_usage_stats (max_requests c) e w1 = (u, w2)" by fastforce
    have "(r, w') = new_dict (rate_limited wait u) w2"
      using run False by (simp add: prompt_miss [OF miss] lim us)
    then show ?thesis using ok unfolding new_dict_def by (auto simp: rate_limited_def)
  next
    case True
    obtain x w2 where loop: "retry_loop c e p fl uc (nat (max_retries c)) 0 None w1 = (x, w2)"
      by (metis prod.collapse)
    show ?thesis
    proof (cases x)
      case (Returned r0)
      then have "r0 = r" "w2 = w'"
        using run True by (simp_all add: prompt_miss [OF miss] lim loop)
      then show ?thesis using retry_loop_returned loop Returned by blast
    next
      case (Exhausted last_error)
      obtain u w3 where us: "get_usage_stats (max_requests c) e w2 = (u, w3)" by fastforce
      have "(r, w') = new_dict (retries_failed (max_retries c) last_error u) w3"
        using run True by (simp add: prompt_miss [OF miss] lim loop Exhausted us)
      then show ?thesis using ok unfolding new_dict_def by (auto simp: retries_failed_def)
    qed
  qed
qed

text \<open>
  Claim C10: on a cache hit, the result is the stored dictionary with only its
  \<^verbatim>\<open>from_cache\<close> key set to \<^verbatim>\<open>True\<close>. Its usage snapshot and attempt count are those of
  the stored dictionary: no clock is read and the table is not queried at the hit, and
  when the dictionary was stored by the request just before (a successful run), they are
  the values that run put there. The mark is made in the stored object itself: the cache
  still holds that object, now marked, and the next hit returns it again and changes
  nothing.
\<close>

theorem cache_hit_returns_stored_entry:
  assumes stored: "response_cache w (cache_key e p fl) = Some a"
    and hit: "prompt c e p fl True w = (r, w')"
  shows "r = a
       \<and> heap w' r = (heap w a)\<lparr>from_cache := Some True\<rparr>
       \<and> usage (heap w' r) = usage (heap w a) \<and> attempt (heap w' r) = attempt (heap w a)
       \<and> ticks w' = ticks w \<and> requests w' = requests w \<and> trace w' = trace w
       \<and> response_cache w' (cache_key e p fl) = Some a
       \<and> from_cache (heap w' a) = Some True
       \<and> prompt c e p fl True w' = (a, w')
       \<and> (\<forall>w0. response_cache w0 (cache_key e p fl) = None \<and> prompt c e p fl True w0 = (a, w)
                  \<and> success (heap w a) \<longrightarrow>
                (\<exists>u k. usage (heap w' r) = Some u \<and> attempt (heap w' r) = Some k))"
proof -
  have run: "prompt c e p fl True w = (a, dict_update a (\<lambda>d. d\<lparr>from_cache := Some True\<rparr>) w)"
    using stored by (rule prompt_hit)
  then have r: "r = a" and w': "w' = dict_update a (\<lambda>d. d\<lparr>from_cache := Some True\<rparr>) w"
    using hit by simp_all
  have stored': "response_cache w' (cache_key e p fl) = Some a"
    using stored by (simp add: w' dict_update_def)
  have again: "prompt c e p fl True w' = (a, w')"
    unfolding prompt_hit [OF stored'] by (simp add: w' dict_update_def)
  have first: "\<forall>w0. response_cache w0 (cache_key e p fl) = None \<and> prompt c e p fl True w0 = (a, w)
                  \<and> success (heap w a) \<longrightarrow>
                (\<exists>u k. usage (heap w' r) = Some u \<and> attempt (heap w' r) = Some k)"
  proof (intro allI impI)
    fix w0
    assume h: "response_cache w0 (cache_key e p fl) = None \<and> prompt c e p fl True w0 = (a, w)
                 \<and> success (heap w a)"
    then have miss: "\<not> (True \<and> cache_key e p fl \<in> dom (response_cache w0))"
      by (simp add: dom_def)
    from h have first_run: "prompt c e p fl True w0 = (a, w)" and ok: "success (heap w a)"
      by simp_all
    from successful_miss_snapshot [OF miss first_run ok]
    show "\<exists>u k. usage (heap w' r) = Some u \<and> attempt (heap w' r) = Some k"
      by (simp add: r w' dict_update_def)
  qed
  show ?thesis
    using stored' again first by (simp add: r w' dict_update_def)
qed

text \<open>
  Witness for C10: the default configuration on an empty table with a \<^verbatim>\<open>gemini\<close> that
  prints \<^verbatim>\<open>ok\<close>; the first request stores its result, the second one is a hit.
\<close>

theorem cache_hit_returns_stored_entry_witness:
  "response_cache (snd (prompt default_config ticking_env ''hi'' None True fresh_world))
       (cache_key ticking_env ''hi'' None)
     = Some (fst (prompt default_config ticking_env ''hi'' None True fresh_world))
   \<and> heap (snd (prompt default_config ticking_env ''hi'' None True
                  (snd (prompt default_config ticking_env ''hi'' None True fresh_world))))
           (fst (prompt default_config ticking_env ''hi'' None True
                  (snd (prompt default_config ticking_env ''hi'' None True fresh_world))))
     = (heap (snd (prompt default_config ticking_env ''hi'' None True fresh_world))
             (fst (prompt default_config ticking_env ''hi'' None True fresh_world)))
         \<lparr>from_cache := Some True\<rparr>
   \<and> attempt (heap (snd (prompt default_config ticking_env ''hi'' None True
                  (snd (prompt default_config ticking_env ''hi'' None True fresh_world))))
           (fst (prompt default_config ticking_env ''hi'' None True
                  (snd (prompt default_config ticking_env ''hi'' None True fresh_world)))))
     = Some 1"
proof -
  let ?P1 = "prompt default_config ticking_env ''hi'' None True fresh_world"
  let ?P2 = "prompt default_config ticking_env ''hi'' None True (snd ?P1)"
  let ?L = "can_make_request (max_requests default_config) ticking_env fresh_world"
  have miss: "\<not> (True \<and> cache_key ticking_env ''hi'' None \<in> dom (response_cache fresh_world))"
    by (simp add: fresh_world_def)
  have lim: "fst ?L = (True, None)"
    by (simp add: can_make_request_def sql_now_def utc_seconds_def Let_def default_config_def
        fresh_world_def count_recent_def delete_old_def)
  then obtain w1 where admitted: "?L = ((True, None), w1)" by (metis prod.collapse)
  have oc: "gemini ticking_env (length (commands w1)) (build_cmd default_config ''hi'' None)
            = Exited 0 ''ok'' []"
    by (simp add: ticking_env_def)
  have n3: "nat (max_retries default_config) = Suc (Suc (Suc 0))" by (simp add: default_config_def)
  note loop = retry_loop_success [OF oc, of True "Suc (Suc 0)" 0 None]
  have p1: "response_cache (snd ?P1) (cache_key ticking_env ''hi'' None) = Some (fst ?P1)
            \<and> attempt (heap (snd ?P1) (fst ?P1)) = Some 1"
    by (simp add: prompt_miss [OF miss] admitted n3 loop del: retry_loop.simps(2))
  then have stored: "response_cache (snd ?P1) (cache_key ticking_env ''hi'' None) = Some (fst ?P1)"
    by simp
  have hit: "?P2 = (fst ?P2, snd ?P2)" by simp
  note entry = cache_hit_returns_stored_entry [OF stored hit]
  have same: "heap (snd ?P2) (fst ?P2) = (heap (snd ?P1) (fst ?P1))\<lparr>from_cache := Some True\<rparr>"
    using entry by blast
  have att: "attempt (heap (snd ?P2) (fst ?P2)) = attempt (heap (snd ?P1) (fst ?P1))"
    using entry by blast
  show ?thesis
    using stored same att p1 by (intro conjI) (simp_all only:)
qed
section \<open>Requests that do not use the cache\<close>

text \<open>
  With \<^verbatim>\<open>use_cache=False\<close> nothing reads or writes the cache: replacing the cache by any
  other one before the call gives the same result and the same final state, but for the
  cache, which is the replacement.
\<close>

lemma can_make_request_cache:
  "can_make_request mx e (w\<lparr>response_cache := m\<rparr>) =
     (fst (can_make_request mx e w), (snd (can_make_request mx e w))\<lparr>response_cache := m\<rparr>)"
  unfolding can_make_request_def sql_now_def datetime_now_def
  by (simp add: Let_def split: option.splits)

lemma get_usage_stats_cache:
  "get_usage_stats mx e (w\<lparr>response_cache := m\<rparr>) =
     (fst (get_usage_stats mx e w), (snd (get_usage_stats mx e w))\<lparr>response_cache := m\<rparr>)"
  unfolding get_usage_stats_def sql_now_def by (simp add: Let_def)

lemma new_dict_cache:
  "new_dict d (w\<lparr>response_cache := m\<rparr>) = (fst (new_dict d w), (snd (new_dict d w))\<lparr>response_cache := m\<rparr>)"
  unfolding new_dict_def by simp

lemma retry_loop_cache:
  "retry_loop c e p fl False n k le (w\<lparr>response_cache := m\<rparr>) =
     (fst (retry_loop c e p fl False n k le w),
      (snd (retry_loop c e p fl False n k le w))\<lparr>response_cache := m\<rparr>)"
proof (induction n arbitrary: k le w)
  case 0
  then show ?case by simp
next
  case (Suc n)
  let ?cmd = "build_cmd c p fl"
  let ?oc = "gemini e (length (commands w)) ?cmd"
  have len: "length (commands (w\<lparr>response_cache := m\<rparr>)) = length (commands w)"
    by (simp add: commands_def)
  show ?case
  proof (cases "success (execute_result ?cmd ?oc)")
    case True
    then obtain out err where oc: "?oc = Exited 0 out err"
      using execute_result_success by blast
    then have oc': "gemini e (length (commands (w\<lparr>response_cache := m\<rparr>))) ?cmd = Exited 0 out err"
      unfolding len .
    show ?thesis
      unfolding retry_loop_success [OF oc] retry_loop_success [OF oc']
      by (simp add: get_usage_stats_fst)
  next
    case False
    then have False': "\<not> success (execute_result ?cmd
        (gemini e (length (commands (w\<lparr>response_cache := m\<rparr>))) ?cmd))"
      unfolding len .
    let ?w2 = "w\<lparr>trace := trace w @ (if 0 < k then [Sleep (2 ^ k)] else []) @ [Run ?cmd],
                 heap := (heap w)(next_ref w := execute_result ?cmd ?oc),
                 next_ref := Suc (next_ref w)\<rparr>"
    have swap: "(w\<lparr>response_cache := m\<rparr>)
                  \<lparr>trace := trace (w\<lparr>response_cache := m\<rparr>)
                              @ (if 0 < k then [Sleep (2 ^ k)] else []) @ [Run ?cmd],
                   heap := (heap (w\<lparr>response_cache := m\<rparr>))(next_ref (w\<lparr>response_cache := m\<rparr>) :=
                              execute_result ?cmd ?oc),
                   next_ref := Suc (next_ref (w\<lparr>response_cache := m\<rparr>))\<rparr>
                = ?w2\<lparr>response_cache := m\<rparr>"
      by (cases w) simp
    have "retry_loop c e p fl False (Suc n) k le (w\<lparr>response_cache := m\<rparr>) =
            retry_loop c e p fl False n (Suc k) (error (execute_result ?cmd ?oc))
              (?w2\<lparr>response_cache := m\<rparr>)"
      unfolding retry_loop_failure [OF False'] len swap ..
    then show ?thesis
      unfolding retry_loop_failure [OF False] Suc.IH by simp
  qed
qed

lemma prompt_cache:
  "prompt c e p fl False (w\<lparr>response_cache := m\<rparr>) =
     (fst (prompt c e p fl False w), (snd (prompt c e p fl False w))\<lparr>response_cache := m\<rparr>)"
proof -
  have miss: "\<not> (False \<and> cache_key e p fl \<in> dom (response_cache v))" for v by simp
  obtain can_proceed wait w1 where lim: "can_make_request (max_requests c) e w = ((can_proceed, wait), w1)"
    by (metis prod.collapse)
  have lim': "can_make_request (max_requests c) e (w\<lparr>response_cache := m\<rparr>)
                = ((can_proceed, wait), w1\<lparr>response_cache := m\<rparr>)"
    unfolding can_make_request_cache lim by simp
  show ?thesis
  proof (cases can_proceed)
    case False
    show ?thesis
      unfolding prompt_miss [OF miss] lim lim' using False
      by (simp add: get_usage_stats_cache new_dict_cache split: prod.splits)
  next
    case True
    obtain x w2 where loop: "retry_loop c e p fl False (nat (max_retries c)) 0 None w1 = (x, w2)"
      by (metis prod.collapse)
    have loop': "retry_loop c e p fl False (nat (max_retries c)) 0 None (w1\<lparr>response_cache := m\<rparr>)
                   = (x, w2\<lparr>response_cache := m\<rparr>)"
      unfolding retry_loop_cache loop by simp
    show ?thesis
      unfolding prompt_miss [OF miss] lim lim' using True
      by (cases x) (simp_all add: loop loop' get_usage_stats_cache new_dict_cache split: prod.splits)
  qed
qed

lemma prompt_no_cache_frame:
  assumes "prompt c e p fl False w = (r, w')"
  shows "response_cache w' = response_cache w"
proof -
  have "w\<lparr>response_cache := response_cache w\<rparr> = w" by simp
  then have "prompt c e p fl False w = (r, w'\<lparr>response_cache := response_cache w\<rparr>)"
    using prompt_cache [of c e p fl "response_cache w" w] assms by simp
  then have "w' = w'\<lparr>response_cache := response_cache w\<rparr>" using assms by simp
  then show ?thesis by (metis world.select_convs(4) world.surjective world.update_convs(4))
qed

text \<open>
  Claim C9, as stated, fails: with a limit of 0 requests per hour a request with
  \<^verbatim>\<open>use_cache=False\<close> is denied by the rate limiter and no command is run.
\<close>

theorem no_cache_denied_counterexample:
  "trace (snd (prompt (default_config\<lparr>max_requests := 0\<rparr>) ticking_env ''hi'' None False fresh_world)) = []"
  by (simp add: prompt_def can_make_request_def get_usage_stats_def new_dict_def sql_now_def
      datetime_now_def utc_seconds_def Let_def default_config_def fresh_world_def count_recent_def
      delete_old_def min_recent_def)

text \<open>
  Claim C9, amended: for every request made with \<^verbatim>\<open>use_cache=False\<close> that the rate limiter
  admits, with \<^verbatim>\<open>max_retries\<close> at least 1, the command executor is invoked, whatever the
  cache holds; and for every request made with \<^verbatim>\<open>use_cache=False\<close> the cache is neither
  consulted (any other cache gives the same result and the same effects) nor updated.
\<close>

theorem no_cache_request:
  assumes run: "prompt c e p fl False w = (r, w')"
  shows "response_cache w' = response_cache w
       \<and> (\<forall>m. prompt c e p fl False (w\<lparr>response_cache := m\<rparr>) = (r, w'\<lparr>response_cache := m\<rparr>))
       \<and> (fst (fst (can_make_request (max_requests c) e w)) \<and> 0 < max_retries c \<longrightarrow>
            (\<exists>rest. trace w' = trace w @ Run (build_cmd c p fl) # rest))"
proof -
  have miss: "\<not> (False \<and> cache_key e p fl \<in> dom (response_cache w))" by simp
  have indep: "\<forall>m. prompt c e p fl False (w\<lparr>response_cache := m\<rparr>) = (r, w'\<lparr>response_cache := m\<rparr>)"
    using run by (simp add: prompt_cache)
  have invoked: "\<exists>rest. trace w' = trace w @ Run (build_cmd c p fl) # rest"
    if adm: "fst (fst (can_make_request (max_requests c) e w))" and pos: "0 < max_retries c"
  proof -
    obtain wait w1 where lim: "can_make_request (max_requests c) e w = ((True, wait), w1)"
      using adm by (metis (full_types) prod.collapse)
    have tr: "trace w1 = trace w" using can_make_request_frame [OF lim] by simp
    obtain n where n: "nat (max_retries c) = Suc n" using pos by (cases "nat (max_retries c)") auto
    obtain x w2 where loop: "retry_loop c e p fl False (Suc n) 0 None w1 = (x, w2)"
      by (metis prod.collapse)
    obtain rest where rest: "trace w2 = trace w @ Run (build_cmd c p fl) # rest"
      using retry_loop_first_run [OF loop] tr by auto
    show ?thesis
    proof (cases x)
      case (Returned r0)
      then have "w' = w2"
        using run by (simp add: prompt_miss [OF miss] lim n loop del: retry_loop.simps(2))
      then show ?thesis using rest by blast
    next
      case (Exhausted last_error)
      obtain u w3 where us: "get_usage_stats (max_requests c) e w2 = (u, w3)" by fastforce
      have w3: "w3 = w2\<lparr>ticks := Suc (Suc (ticks w2))\<rparr>"
        using us get_usage_stats_snd [of "max_requests c" e w2] by simp
      have "(r, w') = new_dict (retries_failed (max_retries c) last_error u) w3"
        using run
        by (simp add: prompt_miss [OF miss] lim n loop Exhausted us del: retry_loop.simps(2))
      then have "trace w' = trace w2" unfolding new_dict_def w3 by simp
      then show ?thesis using rest by simp
    qed
  qed
  show ?thesis
    using prompt_no_cache_frame [OF run] indep invoked by blast
qed
text \<open>
  Witness for C9: the default configuration on an empty table with a \<^verbatim>\<open>gemini\<close> that
  prints \<^verbatim>\<open>ok\<close>. The request is admitted and runs the command, and it does the same when
  the cache already holds an entry under its key.
\<close>

theorem no_cache_request_witness:
  "fst (fst (can_make_request (max_requests default_config) ticking_env fresh_world))
   \<and> 0 < max_retries default_config
   \<and> response_cache (snd (prompt default_config ticking_env ''hi'' None False fresh_world)) = Map.empty
   \<and> prompt default_config ticking_env ''hi'' None False
        (fresh_world\<lparr>response_cache := [cache_key ticking_env ''hi'' None \<mapsto> 7]\<rparr>)
      = (fst (prompt default_config ticking_env ''hi'' None False fresh_world),
         (snd (prompt default_config ticking_env ''hi'' None False fresh_world))
           \<lparr>response_cache := [cache_key ticking_env ''hi'' None \<mapsto> 7]\<rparr>)
   \<and> (\<exists>rest. trace (snd (prompt default_config ticking_env ''hi'' None False fresh_world))
                = Run [''gemini'', ''--yolo'', ''--checkpointing'', ''-p'', ''hi''] # rest)"
proof -
  let ?P = "prompt default_config ticking_env ''hi'' None False fresh_world"
  let ?L = "can_make_request (max_requests default_config) ticking_env fresh_world"
  have adm: "fst (fst ?L)"
    by (simp add: can_make_request_def sql_now_def utc_seconds_def Let_def default_config_def
        fresh_world_def count_recent_def delete_old_def)
  have pos: "0 < max_retries default_config" by (simp add: default_config_def)
  have cmd: "build_cmd default_config ''hi'' None = [''gemini'', ''--yolo'', ''--checkpointing'', ''-p'', ''hi'']"
    by (simp add: build_cmd_def default_config_def)
  have empty: "response_cache fresh_world = Map.empty" "trace fresh_world = []"
    by (simp_all add: fresh_world_def)
  have run: "?P = (fst ?P, snd ?P)" by simp
  note request = no_cache_request [OF run]
  have frame: "response_cache (snd ?P) = response_cache fresh_world" using request by blast
  have indep: "prompt default_config ticking_env ''hi'' None False
                 (fresh_world\<lparr>response_cache := [cache_key ticking_env ''hi'' None \<mapsto> 7]\<rparr>)
               = (fst ?P, (snd ?P)\<lparr>response_cache := [cache_key ticking_env ''hi'' None \<mapsto> 7]\<rparr>)"
    using request by blast
  have "\<exists>rest. trace (snd ?P) = trace fresh_world @ Run (build_cmd default_config ''hi'' None) # rest"
    using request adm pos by blast
  then have invoked: "\<exists>rest. trace (snd ?P)
                        = Run [''gemini'', ''--yolo'', ''--checkpointing'', ''-p'', ''hi''] # rest"
    unfolding cmd empty by simp
  show ?thesis
    using adm pos frame indep invoked unfolding empty by (intro conjI) (simp_all only:)
qed

section \<open>Asynchronous jobs\<close>

























text \<open>
  The result of a job is the dictionary object that \<^verbatim>\<open>prompt\<close> returned, and with the
  default \<^verbatim>\<open>use_cache=True\<close> of the worker that object is also the one the response cache
  holds. Here the worker serves \<^verbatim>\<open>job-1\<close>, and later \<^verbatim>\<open>job-2\<close> with the same prompt: the
  second request is a cache hit, and the mark it makes is in the result of \<^verbatim>\<open>job-1\<close>, which
  was completed before and whose registry entry is as it was.
\<close>

lemma completed_job_result_marked:
  "let s = server_run default_config ticking_env [PromptAsync ''job-1'' ''hi'' (Some []), Worker]
             fresh_server;
       s' = server_run default_config ticking_env
              [PromptAsync ''job-2'' ''hi'' (Some []), Worker] s
   in get_job ''job-1'' s' = get_job ''job-1'' s
      \<and> map_option job_result (get_job ''job-1'' s) = Some (Some 0)
      \<and> from_cache (heap (api s) 0) = None
      \<and> from_cache (heap (api s') 0) = Some True"
  by (simp add: server_run_def prompt_async_def api_prompt_async_def process_queue_def callback_def
      get_job_def fresh_server_def fresh_world_def default_config_def ticking_env_def failing_env_def
      prompt_def can_make_request_def get_usage_stats_def new_dict_def dict_update_def
      record_request_def len_output_def sql_now_def datetime_now_def
      utc_seconds_def execute_gemini_command_def execute_result_def sleep_def
      cache_key_def commands_def count_recent_def delete_old_def Let_def eval_nat_numeral
      split: prod.splits)



end
